theory Spec2Isabelle
  imports Complex_Main "HOL-Library.Sublist"
begin

section \<open>Data model\<close>

text \<open>
  The backend is a set of HTTP handlers over three document collections (Product,
  Collection, Order) and a few external collaborators (payment gateway, shipping API).
  A JavaScript \<open>number\<close> is a double, and every finite double is a rational: the
  values are rationals, and the two operations that round, \<open>+\<close> and \<open>*\<close>, are
  parameters of the model about which nothing is assumed (comparison, \<open>Math.max\<close> and
  \<open>||\<close> do not round). \<open>NaN\<close>, where the code can produce it, is \<open>None\<close> of
  \<open>number option\<close>. A string is a list of code units below 256 (ASCII and Latin-1). A
  request body field that may be missing is an \<open>option\<close>; \<open>None\<close> is JavaScript's
  \<open>undefined\<close>.
\<close>

type_synonym number = rat

text \<open>\<open>fadd x y\<close> is \<open>x + y\<close> and \<open>fmul x y\<close> is \<open>x * y\<close> as JavaScript computes
  them on numbers.\<close>

record arith =
  fadd :: "number \<Rightarrow> number \<Rightarrow> number"
  fmul :: "number \<Rightarrow> number \<Rightarrow> number"

text \<open>models/Order.ts: the status enum of \<open>IOrder\<close>.\<close>

datatype status = Created | Paid | Failed | Shipped | Delivered

record address =
  line1 :: string
  line2 :: "string option"
  city :: string
  state :: string
  pincode :: string
  country :: string

record customer =
  c_name :: string
  c_email :: string
  c_phone :: string
  c_address :: address

record item =
  productId :: string
  variantId :: "string option"
  i_name :: string
  quantity :: number
  i_price :: number

record order =
  orderId :: string
  razorpayOrderId :: string
  razorpayPaymentId :: "string option"
  razorpaySignature :: "string option"
  amount :: number
  currency :: string
  status :: status
  customer :: customer
  items :: "item list"
  shiprocketOrderId :: "string option"
  shiprocketShipmentId :: "string option"
  trackingUrl :: "string option"

text \<open>models/Product.ts. The partner webhook upserts without validators, so a stored
  product can lack \<open>price\<close> and \<open>handle\<close>; both are optional here.\<close>

record variant =
  v_id :: string
  v_title :: string
  v_price :: number
  v_availableForSale :: bool
  v_sku :: "string option"

record dimensions =
  dim_length :: number
  dim_breadth :: number
  dim_height :: number
  dim_weight :: number

record product =
  p_id :: string
  p_name :: string
  flavor :: string
  p_price :: "number option"
  p_description :: string
  p_handle :: "string option"
  images :: "string list"
  stock :: number
  availableForSale :: bool
  variants :: "variant list"
  p_dimensions :: "dimensions option"
  p_updatedAt :: nat

text \<open>models/Collection.ts.\<close>

record collection =
  col_id :: string
  col_name :: string
  col_handle :: "string option"
  col_description :: string
  productIds :: "string list"
  col_image :: "string option"
  col_updatedAt :: nat

text \<open>\<open>process.env\<close>: the variables the handlers read.\<close>

record env =
  ADMIN_PASSWORD :: "string option"
  JWT_SECRET :: "string option"
  SHIPROCKET_API_KEY :: "string option"
  SHIPROCKET_API_SECRET :: "string option"
  RAZORPAY_KEY_SECRET :: "string option"
  RAZORPAY_KEY_ID :: "string option"

text \<open>The effects a handler leaves behind, in the order in which they happen.\<close>

datatype collaborator =
    FasterCheckoutVerify
  | FasterCheckoutCancel
  | ShiprocketCancel
  | CheckoutAccessToken

text \<open>services/shiprocket.ts: the order the shipping collaborator is asked to create.
  The billing fields are copies of the order's customer snapshot and are left out.\<close>

record sr_item =
  sr_name :: string
  sr_sku :: string
  sr_units :: number
  sr_selling_price :: number
  sr_discount :: number

record shiprocket_order =
  sr_order_id :: string
  sr_pickup_location :: string
  sr_order_items :: "sr_item list"
  sr_sub_total :: number
  sr_length :: number
  sr_breadth :: number
  sr_height :: number
  sr_weight :: number

text \<open>services/shiprocket-faster.ts: a product line of a Faster Checkout session.\<close>

record fc_product =
  fc_name :: string
  fc_sku :: string
  fc_units :: number
  fc_selling_price :: "number option"
  fc_discount :: number

text \<open>\<open>OrderSaved\<close> is \<open>order.save()\<close>, \<open>OrderUpdated\<close> is \<open>Order.findOneAndUpdate\<close>,
  \<open>CatalogWritten\<close> an upsert of a product or collection. The other events are calls to
  a collaborator: \<open>createRazorpayOrder\<close> (amount, currency, receipt),
  \<open>createFasterCheckout\<close> (order id, amount, products), \<open>createShiprocketOrder\<close>, and
  the calls that carry nothing the ledger depends on.\<close>

datatype event =
    OrderSaved string status
  | OrderUpdated string
  | CatalogWritten string
  | RazorpayRequested "number option" string string
  | CheckoutRequested string number "fc_product list"
  | ShipmentRequested shiprocket_order
  | CollabCalled collaborator

fun is_collab_call :: "event \<Rightarrow> bool" where
  "is_collab_call (RazorpayRequested _ _ _) = True"
| "is_collab_call (CheckoutRequested _ _ _) = True"
| "is_collab_call (ShipmentRequested _) = True"
| "is_collab_call (CollabCalled _) = True"
| "is_collab_call _ = False"

record world =
  products :: "product list"
  collections :: "collection list"
  orders :: "order list"
  trace :: "event list"

definition emit :: "event \<Rightarrow> world \<Rightarrow> world" where
  "emit e w = w\<lparr>trace := trace w @ [e]\<rparr>"

section \<open>JavaScript and document-store primitives\<close>

text \<open>Truthiness of an optional string: \<open>undefined\<close> and \<open>''\<close> are falsy.\<close>

definition truthy :: "string option \<Rightarrow> bool" where
  "truthy s = (case s of None \<Rightarrow> False | Some v \<Rightarrow> v \<noteq> [])"

text \<open>\<open>a || b\<close> on optional strings.\<close>

definition or_else :: "string option \<Rightarrow> string \<Rightarrow> string" where
  "or_else s d = (case s of None \<Rightarrow> d | Some v \<Rightarrow> if v = [] then d else v)"

text \<open>\<open>x || d\<close> on numbers: \<open>0\<close> is falsy.\<close>

definition num_or :: "number \<Rightarrow> number \<Rightarrow> number" where
  "num_or x d = (if x = 0 then d else x)"

text \<open>\<open>String.prototype.replace(pat, rep)\<close> with a string pattern: the first occurrence.\<close>

fun replace_first :: "string \<Rightarrow> string \<Rightarrow> string \<Rightarrow> string" where
  "replace_first pat rep [] = (if pat = [] then rep else [])"
| "replace_first pat rep (c # cs) =
     (if prefix pat (c # cs) then rep @ drop (length pat) (c # cs)
      else c # replace_first pat rep cs)"

text \<open>Decimal rendering of \<open>Date.now()\<close> inside a template string.\<close>

definition digit_char :: "nat \<Rightarrow> char" where
  "digit_char d = ''0123456789'' ! d"

fun show_nat :: "nat \<Rightarrow> string" where
  "show_nat n = (if n < 10 then [digit_char n] else show_nat (n div 10) @ [digit_char (n mod 10)])"

declare show_nat.simps [simp del]

text \<open>\<open>Model.findOne(filter)\<close>: the first matching document.
  \<open>Model.findOneAndUpdate(filter, update, {new: true})\<close>: the first matching document is
  replaced by its update and returned; without a match nothing changes.\<close>

fun update_first :: "('a \<Rightarrow> bool) \<Rightarrow> ('a \<Rightarrow> 'a) \<Rightarrow> 'a list \<Rightarrow> 'a list" where
  "update_first P f [] = []"
| "update_first P f (x # xs) = (if P x then f x # xs else x # update_first P f xs)"

definition findOneAndUpdate :: "('a \<Rightarrow> bool) \<Rightarrow> ('a \<Rightarrow> 'a) \<Rightarrow> 'a list \<Rightarrow> 'a option \<times> 'a list" where
  "findOneAndUpdate P f xs =
     (case find P xs of None \<Rightarrow> (None, xs) | Some x \<Rightarrow> (Some (f x), update_first P f xs))"

definition findOrder :: "string \<Rightarrow> order list \<Rightarrow> order option" where
  "findOrder oid os = find (\<lambda>d. orderId d = oid) os"

definition findProduct :: "string \<Rightarrow> product list \<Rightarrow> product option" where
  "findProduct pid ps = find (\<lambda>p. p_id p = pid) ps"

text \<open>An update document for an order: a key that is absent (or \<open>undefined\<close>) leaves the
  stored field as it is.\<close>

record order_update =
  u_status :: "status option"
  u_razorpayPaymentId :: "string option"
  u_razorpaySignature :: "string option"
  u_shiprocketOrderId :: "string option"
  u_shiprocketShipmentId :: "string option"
  u_trackingUrl :: "string option"

definition no_update :: order_update where
  "no_update = \<lparr>u_status = None, u_razorpayPaymentId = None, u_razorpaySignature = None,
     u_shiprocketOrderId = None, u_shiprocketShipmentId = None, u_trackingUrl = None\<rparr>"

definition keep :: "'a option \<Rightarrow> 'a option \<Rightarrow> 'a option" where
  "keep new old = (case new of None \<Rightarrow> old | Some v \<Rightarrow> Some v)"

definition apply_order_update :: "order_update \<Rightarrow> order \<Rightarrow> order" where
  "apply_order_update u d = d\<lparr>
     status := (case u_status u of None \<Rightarrow> status d | Some s \<Rightarrow> s),
     razorpayPaymentId := keep (u_razorpayPaymentId u) (razorpayPaymentId d),
     razorpaySignature := keep (u_razorpaySignature u) (razorpaySignature d),
     shiprocketOrderId := keep (u_shiprocketOrderId u) (shiprocketOrderId d),
     shiprocketShipmentId := keep (u_shiprocketShipmentId u) (shiprocketShipmentId d),
     trackingUrl := keep (u_trackingUrl u) (trackingUrl d)\<rparr>"

text \<open>\<open>Order.findOneAndUpdate({orderId}, update, {new: true})\<close> on the world.\<close>

definition update_order :: "string \<Rightarrow> order_update \<Rightarrow> world \<Rightarrow> order option \<times> world" where
  "update_order oid u w =
     (case findOneAndUpdate (\<lambda>d. orderId d = oid) (apply_order_update u) (orders w) of
        (None, _) \<Rightarrow> (None, w)
      | (Some d', os') \<Rightarrow> (Some d', emit (OrderUpdated oid) (w\<lparr>orders := os'\<rparr>)))"

section \<open>Responses and admin authentication\<close>

text \<open>A response is an error (\<open>res.status(n).json({error: msg})\<close>) or one of the success
  bodies the handlers send.\<close>

datatype response =
    ErrorResp nat string
  | OrderResp order
  | PaymentVerifiedResp order
  | RazorpayOrderResp string string number string "string option"
  | FasterCreatedResp string "string option" "string option" number
  | FasterVerifiedResp order "string option" "string option"
  | SuccessMessageResp string
  | ShipmentCreatedResp "string option" "string option" order
  | TokenResp string
  | ProductWebhookResp string
  | CollectionWebhookResp string

record admin_headers =
  authorization :: "string option"
  x_admin_password :: "string option"

text \<open>middleware/auth.ts \<open>authenticateAdmin\<close>; \<open>None\<close> is \<open>next()\<close>. \<open>jwt_verify token secret\<close>
  stands for \<open>jwt.verify\<close> not throwing.\<close>

definition authenticateAdmin ::
  "(string \<Rightarrow> string \<Rightarrow> bool) \<Rightarrow> env \<Rightarrow> admin_headers \<Rightarrow> response option" where
  "authenticateAdmin jwt_verify ev h =
     (if x_admin_password h = ADMIN_PASSWORD ev then None
      else case map_option (replace_first ''Bearer '' []) (authorization h) of
          None \<Rightarrow> Some (ErrorResp 401 ''Authentication required'')
        | Some token \<Rightarrow>
            if token = [] then Some (ErrorResp 401 ''Authentication required'')
            else if jwt_verify token (or_else (JWT_SECRET ev) ''secret'') then None
            else Some (ErrorResp 401 ''Invalid authentication token''))"

definition admin_only ::
  "(string \<Rightarrow> string \<Rightarrow> bool) \<Rightarrow> env \<Rightarrow> admin_headers \<Rightarrow>
   (world \<Rightarrow> response \<times> world) \<Rightarrow> world \<Rightarrow> response \<times> world" where
  "admin_only jwt_verify ev h handler w =
     (case authenticateAdmin jwt_verify ev h of Some r \<Rightarrow> (r, w) | None \<Rightarrow> handler w)"

section \<open>Order ledger routes (routes/orders.ts)\<close>

definition respond_order :: "order option \<times> world \<Rightarrow> response \<times> world" where
  "respond_order r = (case r of (None, w') \<Rightarrow> (ErrorResp 404 ''Order not found'', w')
                              | (Some d, w') \<Rightarrow> (OrderResp d, w'))"

text \<open>\<open>PATCH /:orderId/status\<close> (admin only).\<close>

definition patch_status :: "string \<Rightarrow> status option \<Rightarrow> world \<Rightarrow> response \<times> world" where
  "patch_status oid st w = respond_order (update_order oid (no_update\<lparr>u_status := st\<rparr>) w)"

text \<open>\<open>PATCH /:orderId/payment\<close>.\<close>

record payment_body =
  pb_razorpayPaymentId :: "string option"
  pb_razorpaySignature :: "string option"
  pb_status :: "status option"

definition patch_payment :: "string \<Rightarrow> payment_body \<Rightarrow> world \<Rightarrow> response \<times> world" where
  "patch_payment oid b w = respond_order (update_order oid
     (no_update\<lparr>u_razorpayPaymentId := pb_razorpayPaymentId b,
                u_razorpaySignature := pb_razorpaySignature b,
                u_status := Some (case pb_status b of None \<Rightarrow> Paid | Some s \<Rightarrow> s)\<rparr>) w)"

text \<open>\<open>PATCH /:orderId/shipment\<close> (admin only).\<close>

record shipment_body =
  sb_shiprocketOrderId :: "string option"
  sb_shiprocketShipmentId :: "string option"
  sb_trackingUrl :: "string option"

definition patch_shipment :: "string \<Rightarrow> shipment_body \<Rightarrow> world \<Rightarrow> response \<times> world" where
  "patch_shipment oid b w = respond_order (update_order oid
     (no_update\<lparr>u_shiprocketOrderId := sb_shiprocketOrderId b,
                u_shiprocketShipmentId := sb_shiprocketShipmentId b,
                u_trackingUrl := sb_trackingUrl b,
                u_status := Some Shipped\<rparr>) w)"

section \<open>Payment confirmation (services/razorpay.ts, routes/payment.ts)\<close>

text \<open>\<open>verifyRazorpayPayment\<close>. \<open>hmac_hex key msg\<close> stands for
  \<open>crypto.createHmac('sha256', key).update(msg).digest('hex')\<close>; with the secret unset
  \<open>createHmac\<close> throws and the function returns \<open>false\<close>.\<close>

definition verifyRazorpayPayment ::
  "(string \<Rightarrow> string \<Rightarrow> string) \<Rightarrow> env \<Rightarrow> string \<Rightarrow> string \<Rightarrow> string \<Rightarrow> bool" where
  "verifyRazorpayPayment hmac_hex ev rzOrderId rzPaymentId rzSignature =
     (case RAZORPAY_KEY_SECRET ev of
        None \<Rightarrow> False
      | Some secret \<Rightarrow> hmac_hex secret (rzOrderId @ ''|'' @ rzPaymentId) = rzSignature)"

record verify_body =
  vb_razorpayOrderId :: "string option"
  vb_razorpayPaymentId :: "string option"
  vb_razorpaySignature :: "string option"
  vb_orderId :: "string option"

text \<open>\<open>POST /verify-payment\<close>.\<close>

definition verify_payment ::
  "(string \<Rightarrow> string \<Rightarrow> string) \<Rightarrow> env \<Rightarrow> verify_body \<Rightarrow> world \<Rightarrow> response \<times> world" where
  "verify_payment hmac_hex ev b w =
     (if \<not> truthy (vb_razorpayOrderId b) \<or> \<not> truthy (vb_razorpayPaymentId b)
         \<or> \<not> truthy (vb_razorpaySignature b)
      then (ErrorResp 400 ''Missing payment verification data'', w)
      else
        let ro = or_else (vb_razorpayOrderId b) [];
            rp = or_else (vb_razorpayPaymentId b) [];
            rs = or_else (vb_razorpaySignature b) []
        in if \<not> verifyRazorpayPayment hmac_hex ev ro rp rs
           then (ErrorResp 400 ''Invalid payment signature'', w)
           else case update_order (or_else (vb_orderId b) ro)
                  (no_update\<lparr>u_razorpayPaymentId := Some rp, u_razorpaySignature := Some rs,
                             u_status := Some Paid\<rparr>) w of
                  (None, w') \<Rightarrow> (ErrorResp 404 ''Order not found'', w')
                | (Some d, w') \<Rightarrow> (PaymentVerifiedResp d, w'))"

section \<open>Checkout session creation\<close>

text \<open>Arithmetic that can meet a missing price: \<open>undefined * q\<close> is \<open>NaN\<close>, and \<open>NaN\<close>
  stays \<open>NaN\<close> under \<open>+=\<close>.\<close>

definition nan_mul :: "arith \<Rightarrow> number option \<Rightarrow> number \<Rightarrow> number option" where
  "nan_mul ar a q = map_option (\<lambda>x. fmul ar x q) a"

definition nan_add :: "arith \<Rightarrow> number option \<Rightarrow> number option \<Rightarrow> number option" where
  "nan_add ar a b = (case (a, b) of (Some x, Some y) \<Rightarrow> Some (fadd ar x y) | _ \<Rightarrow> None)"

text \<open>The validators of the Order schema that run on \<open>save()\<close>: a required string must be
  present and non-empty. The unique index on \<open>orderId\<close> rejects a second document with
  the same identifier. A failed \<open>save()\<close> throws, which is \<open>None\<close>.\<close>

definition valid_item :: "item \<Rightarrow> bool" where
  "valid_item it = (productId it \<noteq> [] \<and> truthy (variantId it) \<and> i_name it \<noteq> [])"

definition valid_order :: "order \<Rightarrow> bool" where
  "valid_order d = (orderId d \<noteq> [] \<and> razorpayOrderId d \<noteq> []
     \<and> c_name (customer d) \<noteq> [] \<and> c_email (customer d) \<noteq> [] \<and> c_phone (customer d) \<noteq> []
     \<and> list_all valid_item (items d))"

definition save_new_order :: "order \<Rightarrow> world \<Rightarrow> world option" where
  "save_new_order d w =
     (if valid_order d \<and> findOrder (orderId d) (orders w) = None
      then Some (emit (OrderSaved (orderId d) (status d)) (w\<lparr>orders := orders w @ [d]\<rparr>))
      else None)"

definition new_order :: "string \<Rightarrow> string \<Rightarrow> number \<Rightarrow> string \<Rightarrow> customer \<Rightarrow> item list \<Rightarrow> order" where
  "new_order oid rzid amt cur cust its =
     \<lparr>orderId = oid, razorpayOrderId = rzid, razorpayPaymentId = None,
      razorpaySignature = None, amount = amt, currency = cur, status = Created,
      customer = cust, items = its, shiprocketOrderId = None,
      shiprocketShipmentId = None, trackingUrl = None\<rparr>"

subsection \<open>Faster Checkout: \<open>POST /create\<close> (routes/faster-checkout.ts)\<close>

fun checkout_loop ::
  "arith \<Rightarrow> product list \<Rightarrow> item list \<Rightarrow> number option \<Rightarrow> fc_product list \<Rightarrow>
   response + (number option \<times> fc_product list)" where
  "checkout_loop ar ps [] totalAmount prods = Inr (totalAmount, prods)"
| "checkout_loop ar ps (it # its) totalAmount prods =
     (case findProduct (productId it) ps of
        None \<Rightarrow> Inl (ErrorResp 404 (''Product '' @ productId it @ '' not found''))
      | Some p \<Rightarrow>
          if \<not> availableForSale p
          then Inl (ErrorResp 400 (''Product '' @ p_name p @ '' is not available''))
          else checkout_loop ar ps its
                 (nan_add ar totalAmount (nan_mul ar (p_price p) (quantity it)))
                 (prods @ [\<lparr>fc_name = p_name p, fc_sku = or_else (variantId it) (p_id p),
                            fc_units = quantity it, fc_selling_price = p_price p,
                            fc_discount = 0\<rparr>]))"

record faster_body =
  fb_items :: "item list option"
  fb_customer :: "customer option"
  fb_pickupPincode :: "string option"

text \<open>\<open>collab\<close> is what \<open>createFasterCheckout\<close> returns: an error message, or the
  \<open>checkout_id\<close> and \<open>checkout_url\<close> of the session. \<open>now\<close> is \<open>Date.now()\<close>.\<close>

definition faster_create ::
  "arith \<Rightarrow> nat \<Rightarrow> string + (string option \<times> string option) \<Rightarrow> faster_body \<Rightarrow> world \<Rightarrow> response \<times> world" where
  "faster_create ar now collab b w =
     (case (fb_items b, fb_customer b) of
        (Some its, Some cust) \<Rightarrow>
          if \<not> truthy (fb_pickupPincode b) then (ErrorResp 400 ''Missing required fields'', w)
          else (case checkout_loop ar (products w) its (Some 0) [] of
              Inl r \<Rightarrow> (r, w)
            | Inr (totalAmount, prods) \<Rightarrow>
                let oid = ''BREWY_'' @ show_nat now in
                (case totalAmount of
                   None \<Rightarrow> (ErrorResp 500 ''Failed to create checkout session'', w)
                 | Some amt \<Rightarrow>
                     (case save_new_order (new_order oid oid amt ''INR'' cust its) w of
                        None \<Rightarrow> (ErrorResp 500 ''Failed to create checkout session'', w)
                      | Some w1 \<Rightarrow>
                          let w2 = emit (CheckoutRequested oid amt prods) w1 in
                          (case collab of
                             Inl err \<Rightarrow> (ErrorResp 500 err, w2)
                           | Inr (checkout_id, checkout_url) \<Rightarrow>
                               (FasterCreatedResp oid checkout_id checkout_url amt,
                                emit (OrderSaved oid Created)
                                  (w2\<lparr>orders := update_first (\<lambda>d. orderId d = oid)
                                     (\<lambda>d. d\<lparr>razorpayOrderId := or_else checkout_id oid\<rparr>)
                                     (orders w2)\<rparr>))))))
      | _ \<Rightarrow> (ErrorResp 400 ''Missing required fields'', w))"

subsection \<open>Razorpay: \<open>POST /create-order\<close> (routes/payment.ts)\<close>

fun calc_total ::
  "arith \<Rightarrow> product list \<Rightarrow> item list \<Rightarrow> number option \<Rightarrow> response + number option" where
  "calc_total ar ps [] calculatedTotal = Inr calculatedTotal"
| "calc_total ar ps (it # its) calculatedTotal =
     (case findProduct (productId it) ps of
        None \<Rightarrow> Inl (ErrorResp 404 (''Product '' @ productId it @ '' not found''))
      | Some p \<Rightarrow>
          if \<not> availableForSale p
          then Inl (ErrorResp 400 (''Product '' @ p_name p @ '' is not available''))
          else calc_total ar ps its (nan_add ar calculatedTotal (nan_mul ar (p_price p) (quantity it))))"

record create_order_body =
  cb_amount :: "number option"
  cb_currency :: "string option"
  cb_items :: "item list option"
  cb_customer :: "customer option"

text \<open>\<open>collab\<close> is what \<open>createRazorpayOrder\<close> returns: \<open>None\<close> for its failure, or the
  gateway's order id and currency.\<close>

definition create_order ::
  "arith \<Rightarrow> env \<Rightarrow> nat \<Rightarrow> (string \<times> string) option \<Rightarrow> create_order_body \<Rightarrow> world \<Rightarrow> response \<times> world" where
  "create_order ar ev now collab b w =
     (case (cb_items b, cb_customer b) of
        (Some its, Some cust) \<Rightarrow>
          if cb_amount b = None \<or> cb_amount b = Some 0
          then (ErrorResp 400 ''Missing required fields'', w)
          else (case calc_total ar (products w) its (Some 0) of
              Inl r \<Rightarrow> (r, w)
            | Inr calculatedTotal \<Rightarrow>
                let oid = ''ORD_'' @ show_nat now;
                    cur = or_else (cb_currency b) ''INR'';
                    w1 = emit (RazorpayRequested calculatedTotal cur oid) w
                in (case collab of
                      None \<Rightarrow> (ErrorResp 500 ''Failed to create Razorpay order'', w1)
                    | Some (rz_id, rz_currency) \<Rightarrow>
                        (case calculatedTotal of
                           None \<Rightarrow> (ErrorResp 500 ''Failed to create order'', w1)
                         | Some amt \<Rightarrow>
                             (case save_new_order (new_order oid rz_id amt cur cust its) w1 of
                                None \<Rightarrow> (ErrorResp 500 ''Failed to create order'', w1)
                              | Some w2 \<Rightarrow>
                                  (RazorpayOrderResp oid rz_id amt rz_currency
                                     (RAZORPAY_KEY_ID ev), w2)))))
      | _ \<Rightarrow> (ErrorResp 400 ''Missing required fields'', w))"

subsection \<open>Checkout token: \<open>POST /generate-token\<close> (routes/checkout.ts)\<close>







section \<open>Shipment coordinator (routes/shipment.ts)\<close>

text \<open>The accumulators of the loop over \<open>order.items\<close> in \<open>POST /create\<close>.\<close>

record package =
  orderItems :: "sr_item list"
  totalWeight :: number
  maxLength :: number
  maxBreadth :: number
  maxHeight :: number

definition package_init :: package where
  "package_init = \<lparr>orderItems = [], totalWeight = 0, maxLength = 10, maxBreadth = 10,
     maxHeight = 10\<rparr>"

definition package_step :: "arith \<Rightarrow> product list \<Rightarrow> item \<Rightarrow> package \<Rightarrow> package" where
  "package_step ar ps it acc =
     (case findProduct (productId it) ps of
        None \<Rightarrow> acc
      | Some p \<Rightarrow>
          let acc1 = acc\<lparr>orderItems := orderItems acc @
                 [\<lparr>sr_name = i_name it, sr_sku = or_else (variantId it) (productId it),
                   sr_units = quantity it, sr_selling_price = i_price it, sr_discount = 0\<rparr>]\<rparr>
          in (case p_dimensions p of
                Some dm \<Rightarrow> acc1\<lparr>
                  totalWeight := fadd ar (totalWeight acc)
                                   (fmul ar (num_or (dim_weight dm) (1/2)) (quantity it)),
                  maxLength := max (maxLength acc) (num_or (dim_length dm) 10),
                  maxBreadth := max (maxBreadth acc) (num_or (dim_breadth dm) 10),
                  maxHeight := max (maxHeight acc) (num_or (dim_height dm) 10)\<rparr>
              | None \<Rightarrow> acc1\<lparr>totalWeight :=
                  fadd ar (totalWeight acc) (fmul ar (1/2) (quantity it))\<rparr>))"

definition package_loop :: "arith \<Rightarrow> product list \<Rightarrow> item list \<Rightarrow> package" where
  "package_loop ar ps its = fold (package_step ar ps) its package_init"

definition shiprocketData ::
  "arith \<Rightarrow> product list \<Rightarrow> order \<Rightarrow> string option \<Rightarrow> shiprocket_order" where
  "shiprocketData ar ps d pickupLocation =
     (let pk = package_loop ar ps (items d) in
      \<lparr>sr_order_id = orderId d, sr_pickup_location = or_else pickupLocation ''Primary'',
       sr_order_items = orderItems pk, sr_sub_total = amount d,
       sr_length = maxLength pk, sr_breadth = maxBreadth pk, sr_height = maxHeight pk,
       sr_weight = totalWeight pk\<rparr>)"

record shipment_create_body =
  sc_orderId :: "string option"
  sc_pickupLocation :: "string option"

text \<open>\<open>POST /create\<close> (admin only). \<open>collab\<close> is what \<open>createShiprocketOrder\<close> returns: an
  error message, or the collaborator's order and shipment identifiers. The final
  \<open>order.save()\<close> runs the schema validators on the document; when they reject it the
  route answers 500 and the stored order stays as it was.\<close>

definition shipment_create ::
  "arith \<Rightarrow> string + (string option \<times> string option) \<Rightarrow> shipment_create_body \<Rightarrow> world \<Rightarrow>
   response \<times> world" where
  "shipment_create ar collab b w =
     (if \<not> truthy (sc_orderId b) then (ErrorResp 400 ''Order ID is required'', w)
      else
        let oid = or_else (sc_orderId b) [] in
        (case findOrder oid (orders w) of
           None \<Rightarrow> (ErrorResp 404 ''Order not found'', w)
         | Some d \<Rightarrow>
             if status d \<noteq> Paid
             then (ErrorResp 400 ''Order must be paid before creating shipment'', w)
             else
               let w1 = emit (ShipmentRequested (shiprocketData ar (products w) d (sc_pickupLocation b))) w in
               (case collab of
                  Inl err \<Rightarrow> (ErrorResp 500 err, w1)
                | Inr (sr_oid, sr_sid) \<Rightarrow>
                    let d' = d\<lparr>shiprocketOrderId := sr_oid, shiprocketShipmentId := sr_sid,
                               status := Shipped\<rparr>
                    in if \<not> valid_order d'
                       then (ErrorResp 500 ''Failed to create shipment'', w1)
                       else (ShipmentCreatedResp sr_oid sr_sid d',
                             emit (OrderSaved oid Shipped)
                               (w1\<lparr>orders := update_first (\<lambda>x. orderId x = oid) (\<lambda>x. d')
                                  (orders w1)\<rparr>)))))"

text \<open>\<open>POST /cancel\<close> (admin only), here and in routes/faster-checkout.ts: the same
  handler up to the collaborator called and the message sent. \<open>collab\<close> is \<open>None\<close> when
  the collaborator accepted the cancellation, or its error message.\<close>

definition cancel_route ::
  "collaborator \<Rightarrow> string \<Rightarrow> string option \<Rightarrow> string option \<Rightarrow> world \<Rightarrow> response \<times> world" where
  "cancel_route c msg collab oid_field w =
     (if \<not> truthy oid_field then (ErrorResp 400 ''Order ID is required'', w)
      else
        let w1 = emit (CollabCalled c) w in
        (case collab of
           Some err \<Rightarrow> (ErrorResp 500 err, w1)
         | None \<Rightarrow>
             (SuccessMessageResp msg,
              snd (update_order (or_else oid_field []) (no_update\<lparr>u_status := Some Failed\<rparr>) w1))))"

definition shipment_cancel :: "string option \<Rightarrow> string option \<Rightarrow> world \<Rightarrow> response \<times> world" where
  "shipment_cancel = cancel_route ShiprocketCancel ''Shipment cancelled successfully''"

definition faster_cancel :: "string option \<Rightarrow> string option \<Rightarrow> world \<Rightarrow> response \<times> world" where
  "faster_cancel = cancel_route FasterCheckoutCancel ''Order cancelled successfully''"

section \<open>Faster Checkout confirmation (routes/faster-checkout.ts)\<close>

record fc_verify_result =
  fr_payment_status :: "string option"
  fr_order_id :: "string option"
  fr_shipment_id :: "string option"
  fr_tracking_url :: "string option"

record fc_verify_body =
  fv_checkoutId :: "string option"
  fv_orderId :: "string option"

text \<open>\<open>POST /verify\<close>. \<open>collab\<close> is what \<open>verifyFasterCheckout\<close> returns. The filter is
  \<open>orderId || result.order_id\<close>; when both are missing no order matches.\<close>

definition faster_verify ::
  "string + fc_verify_result \<Rightarrow> fc_verify_body \<Rightarrow> world \<Rightarrow> response \<times> world" where
  "faster_verify collab b w =
     (if \<not> truthy (fv_checkoutId b) then (ErrorResp 400 ''Checkout ID is required'', w)
      else
        let w1 = emit (CollabCalled FasterCheckoutVerify) w in
        (case collab of
           Inl err \<Rightarrow> (ErrorResp 500 err, w1)
         | Inr r \<Rightarrow>
             let key = (if truthy (fv_orderId b) then fv_orderId b else fr_order_id r);
                 u = no_update\<lparr>
                       u_status := Some (if fr_payment_status r = Some ''paid'' then Paid else Created),
                       u_shiprocketOrderId := fr_order_id r,
                       u_shiprocketShipmentId := fr_shipment_id r,
                       u_trackingUrl := fr_tracking_url r\<rparr>
             in (case key of
                   None \<Rightarrow> (ErrorResp 404 ''Order not found'', w1)
                 | Some oid \<Rightarrow>
                     (case update_order oid u w1 of
                        (None, w2) \<Rightarrow> (ErrorResp 404 ''Order not found'', w2)
                      | (Some d, w2) \<Rightarrow>
                          (FasterVerifiedResp d (fr_payment_status r) (fr_tracking_url r), w2)))))"

record fc_webhook_body =
  wh_order_id :: "string option"
  wh_payment_status :: "string option"
  wh_shipment_status :: "string option"
  wh_tracking_url :: "string option"

text \<open>\<open>POST /webhook\<close>: the update document built from the payload.\<close>

definition webhook_update :: "fc_webhook_body \<Rightarrow> order_update" where
  "webhook_update b =
     (let u1 = (if truthy (wh_payment_status b)
                then no_update\<lparr>u_status :=
                       Some (if wh_payment_status b = Some ''paid'' then Paid else Failed)\<rparr>
                else no_update);
          u2 = (if wh_shipment_status b = Some ''shipped'' then u1\<lparr>u_status := Some Shipped\<rparr>
                else if wh_shipment_status b = Some ''delivered''
                then u1\<lparr>u_status := Some Delivered\<rparr> else u1)
      in if truthy (wh_tracking_url b) then u2\<lparr>u_trackingUrl := wh_tracking_url b\<rparr> else u2)"

definition faster_webhook :: "fc_webhook_body \<Rightarrow> world \<Rightarrow> response \<times> world" where
  "faster_webhook b w =
     (if \<not> truthy (wh_order_id b) then (ErrorResp 400 ''Invalid webhook data'', w)
      else (case update_order (or_else (wh_order_id b) []) (webhook_update b) w of
              (None, w') \<Rightarrow> (ErrorResp 404 ''Order not found'', w')
            | (Some d, w') \<Rightarrow> (SuccessMessageResp ''Webhook processed successfully'', w')))"

section \<open>Catalog webhooks (routes/shiprocket-webhooks.ts)\<close>

subsection \<open>Handle slug: \<open>name.toLowerCase().replace(/\s+/g, '-')\<close>\<close>

text \<open>\<open>toLowerCase\<close> on a code unit below 256: the ASCII capitals, and the Latin-1
  capitals U+00C0 to U+00DE (without the multiplication sign U+00D7), which lie 32 below
  their small letters.\<close>

definition lower_char :: "char \<Rightarrow> char" where
  "lower_char c =
     (case map_of (zip ''ABCDEFGHIJKLMNOPQRSTUVWXYZ'' ''abcdefghijklmnopqrstuvwxyz'') c of
        Some l \<Rightarrow> l
      | None \<Rightarrow>
          if (192 \<le> (of_char c :: nat) \<and> (of_char c :: nat) \<le> 214)
             \<or> (216 \<le> (of_char c :: nat) \<and> (of_char c :: nat) \<le> 222)
          then char_of ((of_char c :: nat) + 32) else c)"

definition toLowerCase :: "string \<Rightarrow> string" where
  "toLowerCase s = map lower_char s"

text \<open>The members of the regular expression class \<open>\s\<close> below 256: tab, line feed,
  vertical tab, form feed, carriage return, space and the no-break space U+00A0.\<close>

definition is_space :: "char \<Rightarrow> bool" where
  "is_space c = (of_char c \<in> {9, 10, 11, 12, 13, 32, 160 :: nat})"

text \<open>\<open>replace(/\s+/g, '-')\<close>: every maximal run of whitespace becomes one hyphen. The flag
  says whether the previous character belonged to a run that is already replaced.\<close>

fun replace_ws_runs :: "bool \<Rightarrow> string \<Rightarrow> string" where
  "replace_ws_runs in_run [] = []"
| "replace_ws_runs in_run (c # cs) =
     (if is_space c then (if in_run then replace_ws_runs True cs
                          else CHR ''-'' # replace_ws_runs True cs)
      else c # replace_ws_runs False cs)"

definition slugify :: "string \<Rightarrow> string" where
  "slugify nm = replace_ws_runs False (toLowerCase nm)"

subsection \<open>\<open>verifyHMAC\<close>\<close>

record webhook_headers =
  x_api_hmac_sha256 :: "string option"
  x_api_key :: "string option"

text \<open>\<open>None\<close> is \<open>next()\<close>. \<open>hmac_hex\<close> is as in \<open>verifyRazorpayPayment\<close>; \<open>payload\<close> is
  \<open>JSON.stringify(req.body)\<close>.\<close>

definition verifyHMAC ::
  "(string \<Rightarrow> string \<Rightarrow> string) \<Rightarrow> env \<Rightarrow> webhook_headers \<Rightarrow> string \<Rightarrow> response option" where
  "verifyHMAC hmac_hex ev h payload =
     (if \<not> truthy (x_api_hmac_sha256 h) \<or> \<not> truthy (x_api_key h)
      then Some (ErrorResp 401 ''Missing authentication headers'')
      else if x_api_key h \<noteq> SHIPROCKET_API_KEY ev
      then Some (ErrorResp 401 ''Invalid API key'')
      else if Some (hmac_hex (or_else (SHIPROCKET_API_SECRET ev) []) payload) \<noteq> x_api_hmac_sha256 h
      then Some (ErrorResp 401 ''Invalid HMAC signature'')
      else None)"

subsection \<open>\<open>POST /product\<close>\<close>

text \<open>A product in the partner's format, with the fields the route documents as required
  (\<open>id\<close>, \<open>title\<close>, \<open>updated_at\<close>, \<open>status\<close>) present. Identifiers are taken in their
  decimal rendering and \<open>updated_at\<close> as the instant it denotes.\<close>

record partner_variant =
  pv_id :: string
  pv_title :: string
  pv_price :: string
  pv_quantity :: "number option"
  pv_sku :: "string option"
  pv_weight :: "number option"
  pv_image_src :: "string option"

record partner_product =
  pp_id :: string
  pp_title :: string
  pp_body_html :: "string option"
  pp_product_type :: "string option"
  pp_updated_at :: nat
  pp_status :: string
  pp_variants :: "partner_variant list option"
  pp_image_src :: "string option"

text \<open>\<open>updateData\<close>: the keys that are always set, and the keys set only on some paths.\<close>

record product_update =
  pu_id :: string
  pu_name :: string
  pu_description :: string
  pu_flavor :: string
  pu_updatedAt :: nat
  pu_availableForSale :: bool
  pu_price :: "number option"
  pu_stock :: "number option"
  pu_variants :: "variant list option"
  pu_dimensions :: "dimensions option"
  pu_images :: "string list option"
  pu_handle :: "string option"

text \<open>\<open>parseFloat(s) || d\<close>, with \<open>parse_float\<close> standing for \<open>parseFloat\<close> (\<open>None\<close> is \<open>NaN\<close>).\<close>

definition parse_or :: "(string \<Rightarrow> number option) \<Rightarrow> string \<Rightarrow> number \<Rightarrow> number" where
  "parse_or parse_float s d = (case parse_float s of None \<Rightarrow> d | Some v \<Rightarrow> num_or v d)"

definition product_updateData :: "(string \<Rightarrow> number option) \<Rightarrow> partner_product \<Rightarrow> product_update" where
  "product_updateData parse_float pd =
     (let u0 = \<lparr>pu_id = pp_id pd, pu_name = pp_title pd,
                pu_description = or_else (pp_body_html pd) [],
                pu_flavor = or_else (pp_product_type pd) ''Beverages'',
                pu_updatedAt = pp_updated_at pd,
                pu_availableForSale = (pp_status pd = ''active''),
                pu_price = None, pu_stock = None, pu_variants = None, pu_dimensions = None,
                pu_images = None, pu_handle = None\<rparr>;
          u1 = (case pp_variants pd of
                  Some (primaryVariant # rest) \<Rightarrow> u0\<lparr>
                    pu_price := Some (parse_or parse_float (pv_price primaryVariant) 0),
                    pu_stock := Some (case pv_quantity primaryVariant of None \<Rightarrow> 0 | Some q \<Rightarrow> q),
                    pu_variants := Some (map (\<lambda>v.
                        \<lparr>v_id = pv_id v, v_title = pv_title v,
                         v_price = parse_or parse_float (pv_price v) 0,
                         v_availableForSale = (pp_status pd = ''active''),
                         v_sku = Some (or_else (pv_sku v) (pv_id v))\<rparr>) (primaryVariant # rest)),
                    pu_dimensions := (case pv_weight primaryVariant of
                        None \<Rightarrow> None
                      | Some wt \<Rightarrow> if wt = 0 then None
                          else Some \<lparr>dim_length = 10, dim_breadth = 10, dim_height = 10,
                                     dim_weight = num_or wt (1/2)\<rparr>),
                    pu_images := (if truthy (pv_image_src primaryVariant)
                                  then Some [or_else (pv_image_src primaryVariant) []] else None)\<rparr>
                | _ \<Rightarrow> u0);
          u2 = (if truthy (pp_image_src pd) \<and> pu_images u1 = None
                then u1\<lparr>pu_images := Some [or_else (pp_image_src pd) []]\<rparr> else u1)
      in if \<not> truthy (pu_handle u2) \<and> pu_name u2 \<noteq> []
         then u2\<lparr>pu_handle := Some (slugify (pu_name u2))\<rparr> else u2)"

text \<open>The stored document after \<open>$set\<close> of the update's keys, and the document an upsert
  inserts when none matched (array and \<open>stock\<close> defaults of the schema filled in). The
  schema's \<open>timestamps\<close> option sets \<open>updatedAt\<close> to the time of the write, \<open>now\<close>,
  in place of the value in the update.\<close>

definition apply_product_update :: "nat \<Rightarrow> product_update \<Rightarrow> product \<Rightarrow> product" where
  "apply_product_update now u p = p\<lparr>
     p_id := pu_id u, p_name := pu_name u, p_description := pu_description u,
     flavor := pu_flavor u, p_updatedAt := now,
     availableForSale := pu_availableForSale u,
     p_price := keep (pu_price u) (p_price p),
     stock := (case pu_stock u of None \<Rightarrow> stock p | Some v \<Rightarrow> v),
     variants := (case pu_variants u of None \<Rightarrow> variants p | Some v \<Rightarrow> v),
     p_dimensions := keep (pu_dimensions u) (p_dimensions p),
     images := (case pu_images u of None \<Rightarrow> images p | Some v \<Rightarrow> v),
     p_handle := keep (pu_handle u) (p_handle p)\<rparr>"

definition product_of_update :: "nat \<Rightarrow> product_update \<Rightarrow> product" where
  "product_of_update now u =
     \<lparr>p_id = pu_id u, p_name = pu_name u, flavor = pu_flavor u, p_price = pu_price u,
      p_description = pu_description u, p_handle = pu_handle u,
      images = (case pu_images u of None \<Rightarrow> [] | Some v \<Rightarrow> v),
      stock = (case pu_stock u of None \<Rightarrow> 0 | Some v \<Rightarrow> v),
      availableForSale = pu_availableForSale u,
      variants = (case pu_variants u of None \<Rightarrow> [] | Some v \<Rightarrow> v),
      p_dimensions = pu_dimensions u, p_updatedAt = now\<rparr>"

text \<open>The documents other than the first match of the filter.\<close>

fun drop_first :: "('a \<Rightarrow> bool) \<Rightarrow> 'a list \<Rightarrow> 'a list" where
  "drop_first P [] = []"
| "drop_first P (x # xs) = (if P x then xs else x # drop_first P xs)"

text \<open>\<open>Model.findOneAndUpdate(filter, update, {upsert: true, new: true})\<close> under the unique
  index on \<open>handle\<close> (a missing handle is indexed as \<open>null\<close>): the write is refused, and
  the call throws, when another document holds the same handle. \<open>None\<close> is that throw.\<close>

definition upsert ::
  "('a \<Rightarrow> bool) \<Rightarrow> ('a \<Rightarrow> 'a) \<Rightarrow> 'a \<Rightarrow> ('a \<Rightarrow> string option) \<Rightarrow> 'a list \<Rightarrow> ('a \<times> 'a list) option" where
  "upsert P f fresh handle_of xs =
     (case find P xs of
        Some x \<Rightarrow>
          if handle_of (f x) \<in> set (map handle_of (drop_first P xs)) then None
          else Some (f x, update_first P f xs)
      | None \<Rightarrow>
          if handle_of fresh \<in> set (map handle_of xs) then None
          else Some (fresh, xs @ [fresh]))"

definition product_handler ::
  "(string \<Rightarrow> number option) \<Rightarrow> nat \<Rightarrow> partner_product \<Rightarrow> world \<Rightarrow> response \<times> world" where
  "product_handler parse_float now pd w =
     (let u = product_updateData parse_float pd in
      case upsert (\<lambda>p. p_id p = pp_id pd) (apply_product_update now u) (product_of_update now u)
             p_handle (products w) of
        None \<Rightarrow> (ErrorResp 500 ''Failed to process product webhook'', w)
      | Some (p, ps') \<Rightarrow>
          (ProductWebhookResp (p_id p), emit (CatalogWritten (p_id p)) (w\<lparr>products := ps'\<rparr>)))"

text \<open>The route: \<open>verifyHMAC\<close>, then the handler. \<open>json_stringify\<close> stands for
  \<open>JSON.stringify\<close> on the parsed body, \<open>now\<close> is the time of the request.\<close>

definition product_webhook ::
  "(string \<Rightarrow> string \<Rightarrow> string) \<Rightarrow> (partner_product \<Rightarrow> string) \<Rightarrow> (string \<Rightarrow> number option) \<Rightarrow>
   nat \<Rightarrow> env \<Rightarrow> webhook_headers \<Rightarrow> partner_product \<Rightarrow> world \<Rightarrow> response \<times> world" where
  "product_webhook hmac_hex json_stringify parse_float now ev h pd w =
     (case verifyHMAC hmac_hex ev h (json_stringify pd) of
        Some r \<Rightarrow> (r, w)
      | None \<Rightarrow> product_handler parse_float now pd w)"

subsection \<open>\<open>POST /collection\<close>\<close>

record partner_collection =
  pc_id :: string
  pc_title :: string
  pc_body_html :: "string option"
  pc_updated_at :: nat
  pc_image_src :: "string option"

record collection_update =
  cu_id :: string
  cu_name :: string
  cu_description :: string
  cu_updatedAt :: nat
  cu_image :: "string option"
  cu_handle :: "string option"

definition collection_updateData :: "partner_collection \<Rightarrow> collection_update" where
  "collection_updateData cd =
     (let u0 = \<lparr>cu_id = pc_id cd, cu_name = pc_title cd,
                cu_description = or_else (pc_body_html cd) [],
                cu_updatedAt = pc_updated_at cd, cu_image = None, cu_handle = None\<rparr>;
          u1 = (if truthy (pc_image_src cd) then u0\<lparr>cu_image := pc_image_src cd\<rparr> else u0)
      in if \<not> truthy (cu_handle u1) \<and> cu_name u1 \<noteq> []
         then u1\<lparr>cu_handle := Some (slugify (cu_name u1))\<rparr> else u1)"

definition apply_collection_update :: "nat \<Rightarrow> collection_update \<Rightarrow> collection \<Rightarrow> collection" where
  "apply_collection_update now u c = c\<lparr>
     col_id := cu_id u, col_name := cu_name u, col_description := cu_description u,
     col_updatedAt := now,
     col_image := keep (cu_image u) (col_image c),
     col_handle := keep (cu_handle u) (col_handle c)\<rparr>"

definition collection_of_update :: "nat \<Rightarrow> collection_update \<Rightarrow> collection" where
  "collection_of_update now u =
     \<lparr>col_id = cu_id u, col_name = cu_name u, col_handle = cu_handle u,
      col_description = cu_description u, productIds = [], col_image = cu_image u,
      col_updatedAt = now\<rparr>"

definition collection_handler :: "nat \<Rightarrow> partner_collection \<Rightarrow> world \<Rightarrow> response \<times> world" where
  "collection_handler now cd w =
     (let u = collection_updateData cd in
      case upsert (\<lambda>c. col_id c = pc_id cd) (apply_collection_update now u) (collection_of_update now u)
             col_handle (collections w) of
        None \<Rightarrow> (ErrorResp 500 ''Failed to process collection webhook'', w)
      | Some (c, cs') \<Rightarrow>
          (CollectionWebhookResp (col_id c), emit (CatalogWritten (col_id c)) (w\<lparr>collections := cs'\<rparr>)))"

definition collection_webhook ::
  "(string \<Rightarrow> string \<Rightarrow> string) \<Rightarrow> (partner_collection \<Rightarrow> string) \<Rightarrow>
   nat \<Rightarrow> env \<Rightarrow> webhook_headers \<Rightarrow> partner_collection \<Rightarrow> world \<Rightarrow> response \<times> world" where
  "collection_webhook hmac_hex json_stringify now ev h cd w =
     (case verifyHMAC hmac_hex ev h (json_stringify cd) of
        Some r \<Rightarrow> (r, w)
      | None \<Rightarrow> collection_handler now cd w)"

section \<open>The public mutations of an order\<close>

text \<open>Every route that can change a stored order, with what it receives: the request,
  and for routes that call a collaborator, what the collaborator answered.\<close>

datatype mutation =
    VerifyPayment verify_body
  | PatchStatus admin_headers string "status option"
  | PatchPayment string payment_body
  | PatchShipment admin_headers string shipment_body
  | FasterWebhook fc_webhook_body
  | FasterVerify "string + fc_verify_result" fc_verify_body
  | FasterCancel admin_headers "string option" "string option"
  | ShipmentCancel admin_headers "string option" "string option"
  | ShipmentCreate admin_headers "string + (string option \<times> string option)" shipment_create_body

fun apply_mutation ::
  "arith \<Rightarrow> (string \<Rightarrow> string \<Rightarrow> bool) \<Rightarrow> (string \<Rightarrow> string \<Rightarrow> string) \<Rightarrow> env \<Rightarrow> mutation \<Rightarrow> world \<Rightarrow>
   response \<times> world" where
  "apply_mutation ar jv hm ev (VerifyPayment b) w = verify_payment hm ev b w"
| "apply_mutation ar jv hm ev (PatchStatus h oid st) w = admin_only jv ev h (patch_status oid st) w"
| "apply_mutation ar jv hm ev (PatchPayment oid b) w = patch_payment oid b w"
| "apply_mutation ar jv hm ev (PatchShipment h oid b) w = admin_only jv ev h (patch_shipment oid b) w"
| "apply_mutation ar jv hm ev (FasterWebhook b) w = faster_webhook b w"
| "apply_mutation ar jv hm ev (FasterVerify c b) w = faster_verify c b w"
| "apply_mutation ar jv hm ev (FasterCancel h c oid) w = admin_only jv ev h (faster_cancel c oid) w"
| "apply_mutation ar jv hm ev (ShipmentCancel h c oid) w = admin_only jv ev h (shipment_cancel c oid) w"
| "apply_mutation ar jv hm ev (ShipmentCreate h c b) w = admin_only jv ev h (shipment_create ar c b) w"

fun run ::
  "arith \<Rightarrow> (string \<Rightarrow> string \<Rightarrow> bool) \<Rightarrow> (string \<Rightarrow> string \<Rightarrow> string) \<Rightarrow> env \<Rightarrow> mutation list \<Rightarrow> world \<Rightarrow> world" where
  "run ar jv hm ev [] w = w"
| "run ar jv hm ev (m # ms) w = run ar jv hm ev ms (snd (apply_mutation ar jv hm ev m w))"

section \<open>Specification-side notions\<close>

text \<open>The transition table of the order state machine as the specification gives it.\<close>

fun allowed_transition :: "status \<Rightarrow> status \<Rightarrow> bool" where
  "allowed_transition Created Paid = True"
| "allowed_transition Created Failed = True"
| "allowed_transition Paid Shipped = True"
| "allowed_transition Paid Failed = True"
| "allowed_transition Shipped Delivered = True"
| "allowed_transition _ _ = False"

text \<open>The status a mutation asks the store to write, read off the request alone.\<close>

fun written_status :: "mutation \<Rightarrow> status option" where
  "written_status (VerifyPayment b) = Some Paid"
| "written_status (PatchStatus h oid st) = st"
| "written_status (PatchPayment oid b) = Some (case pb_status b of None \<Rightarrow> Paid | Some s \<Rightarrow> s)"
| "written_status (PatchShipment h oid b) = Some Shipped"
| "written_status (FasterWebhook b) = u_status (webhook_update b)"
| "written_status (FasterVerify c b) =
     (case c of Inl err \<Rightarrow> None
      | Inr r \<Rightarrow> Some (if fr_payment_status r = Some ''paid'' then Paid else Created))"
| "written_status (FasterCancel h c oid) = Some Failed"
| "written_status (ShipmentCancel h c oid) = Some Failed"
| "written_status (ShipmentCreate h c b) = Some Shipped"

fun is_shipment_create :: "mutation \<Rightarrow> bool" where
  "is_shipment_create (ShipmentCreate h c b) = True"
| "is_shipment_create _ = False"

text \<open>The sum over the line items of stored price times quantity, accumulated from zero
  in the order of the items with the code's own \<open>+\<close> and \<open>*\<close>.\<close>

definition stored_price :: "product list \<Rightarrow> item \<Rightarrow> number" where
  "stored_price ps it =
     (case findProduct (productId it) ps of
        None \<Rightarrow> 0
      | Some p \<Rightarrow> (case p_price p of None \<Rightarrow> 0 | Some pr \<Rightarrow> pr))"

definition server_total :: "arith \<Rightarrow> product list \<Rightarrow> item list \<Rightarrow> number" where
  "server_total ar ps its =
     foldl (\<lambda>total it. fadd ar total (fmul ar (stored_price ps it) (quantity it))) 0 its"

text \<open>A line item is valid when its product is stored, available and priced.\<close>

definition valid_line :: "product list \<Rightarrow> item \<Rightarrow> bool" where
  "valid_line ps it =
     (case findProduct (productId it) ps of
        None \<Rightarrow> False
      | Some p \<Rightarrow> availableForSale p \<and> p_price p \<noteq> None)"

text \<open>The line items whose product still resolves, each with its product.\<close>

definition resolved :: "product list \<Rightarrow> item list \<Rightarrow> (item \<times> product) list" where
  "resolved ps its =
     List.map_filter (\<lambda>it. map_option (Pair it) (findProduct (productId it) ps)) its"

text \<open>The weight and the size a product contributes to a package: the stored value, or
  the default when the product has no dimensions or the stored value is zero.\<close>

definition ship_weight :: "product \<Rightarrow> number" where
  "ship_weight p = (case p_dimensions p of None \<Rightarrow> 1/2 | Some dm \<Rightarrow> num_or (dim_weight dm) (1/2))"

definition ship_dim :: "(dimensions \<Rightarrow> number) \<Rightarrow> product \<Rightarrow> number" where
  "ship_dim axis p = (case p_dimensions p of None \<Rightarrow> 10 | Some dm \<Rightarrow> num_or (axis dm) 10)"



text \<open>One mutation \<open>moved\<close> the ledger by the status \<open>s\<close>: every order that was stored is
  still stored, and its status is the old one or \<open>s\<close>.\<close>

definition moved :: "status option \<Rightarrow> world \<Rightarrow> world \<Rightarrow> bool" where
  "moved s w w' = (\<forall>oid d. findOrder oid (orders w) = Some d \<longrightarrow>
      (\<exists>d'. findOrder oid (orders w') = Some d' \<and> (status d' = status d \<or> s = Some (status d'))))"

section \<open>Example data\<close>

text \<open>A small store in the shape of the seed data: two products, one order, an admin who
  authenticates with the shared password. \<open>ex_hmac\<close> and \<open>ex_jwt\<close> are stand-ins for the
  cryptographic primitives where a concrete run needs one.\<close>

definition ex_env :: env where
  "ex_env = \<lparr>ADMIN_PASSWORD = Some ''admin-pw'', JWT_SECRET = None,
     SHIPROCKET_API_KEY = Some ''sr-key'', SHIPROCKET_API_SECRET = Some ''sr-secret'',
     RAZORPAY_KEY_SECRET = Some ''rzp-secret'', RAZORPAY_KEY_ID = Some ''rzp_test_key''\<rparr>"

text \<open>Exact arithmetic, the instance of \<open>+\<close> and \<open>*\<close> used in the concrete runs. It is
  JavaScript's arithmetic wherever the exact result is a double, as on the integer prices
  and quantities of the examples.\<close>

definition ex_arith :: arith where
  "ex_arith = \<lparr>fadd = (+), fmul = (*)\<rparr>"

definition ex_admin :: admin_headers where
  "ex_admin = \<lparr>authorization = None, x_admin_password = Some ''admin-pw''\<rparr>"

definition ex_hmac :: "string \<Rightarrow> string \<Rightarrow> string" where
  "ex_hmac key msg = key @ ''#'' @ msg"

definition ex_jwt :: "string \<Rightarrow> string \<Rightarrow> bool" where
  "ex_jwt token secret = False"

definition ex_grape :: product where
  "ex_grape = \<lparr>p_id = ''prod_grape'', p_name = ''Grape Brewy'', flavor = ''Grape'',
     p_price = Some 49, p_description = ''Grape soda'', p_handle = Some ''grape'',
     images = [], stock = 100, availableForSale = True, variants = [],
     p_dimensions = Some \<lparr>dim_length = 6, dim_breadth = 6, dim_height = 12,
                          dim_weight = 35/100\<rparr>,
     p_updatedAt = 0\<rparr>"

definition ex_crate :: product where
  "ex_crate = \<lparr>p_id = ''prod_crate'', p_name = ''Brewy Crate'', flavor = ''Mixed'',
     p_price = Some 279, p_description = ''Six cans'', p_handle = Some ''crate'',
     images = [], stock = 10, availableForSale = True, variants = [],
     p_dimensions = Some \<lparr>dim_length = 10, dim_breadth = 10, dim_height = 10,
                          dim_weight = 1/2\<rparr>,
     p_updatedAt = 0\<rparr>"

definition ex_customer :: customer where
  "ex_customer = \<lparr>c_name = ''Asha Rao'', c_email = ''asha@example.com'',
     c_phone = ''9999999999'',
     c_address = \<lparr>line1 = ''1 Main Street'', line2 = None, city = ''Pune'', state = ''MH'',
                  pincode = ''411001'', country = ''India''\<rparr>\<rparr>"

definition ex_item :: "string \<Rightarrow> number \<Rightarrow> item" where
  "ex_item pid q = \<lparr>productId = pid, variantId = Some pid, i_name = pid, quantity = q,
     i_price = 49\<rparr>"

definition ex_order :: "status \<Rightarrow> item list \<Rightarrow> order" where
  "ex_order st its = \<lparr>orderId = ''ORD_1'', razorpayOrderId = ''order_abc'',
     razorpayPaymentId = None, razorpaySignature = None, amount = 98, currency = ''INR'',
     status = st, customer = ex_customer, items = its, shiprocketOrderId = None,
     shiprocketShipmentId = None, trackingUrl = None\<rparr>"

definition ex_world :: "status \<Rightarrow> item list \<Rightarrow> world" where
  "ex_world st its = \<lparr>products = [ex_grape, ex_crate], collections = [],
     orders = [ex_order st its], trace = []\<rparr>"

definition ex_ship :: mutation where
  "ex_ship = ShipmentCreate ex_admin (Inr (Some ''77'', Some ''88''))
      \<lparr>sc_orderId = Some ''ORD_1'', sc_pickupLocation = None\<rparr>"

definition ex_delivered :: mutation where
  "ex_delivered = FasterWebhook \<lparr>wh_order_id = Some ''ORD_1'', wh_payment_status = None,
      wh_shipment_status = Some ''delivered'', wh_tracking_url = None\<rparr>"

definition ex_create_body :: shipment_create_body where
  "ex_create_body = \<lparr>sc_orderId = Some ''ORD_1'', sc_pickupLocation = None\<rparr>"

text \<open>The order as \<open>POST /create\<close> of the shipment routes and \<open>PATCH /:orderId/shipment\<close>
  leave it when they mark it shipped (the latter with no tracking URL in the request).\<close>

definition marked_shipped :: "order \<Rightarrow> string option \<Rightarrow> string option \<Rightarrow> order" where
  "marked_shipped d sr_oid sr_sid =
     d\<lparr>shiprocketOrderId := sr_oid, shiprocketShipmentId := sr_sid, status := Shipped\<rparr>"

text \<open>The signature a payment confirmation is expected to carry: the hex HMAC-SHA256 of
  \<open>orderRef + "|" + paymentRef\<close> under the payment secret (none when the secret is unset).\<close>

definition expected_signature ::
  "(string \<Rightarrow> string \<Rightarrow> string) \<Rightarrow> env \<Rightarrow> string \<Rightarrow> string \<Rightarrow> string option" where
  "expected_signature hmac_hex ev orderRef paymentRef =
     map_option (\<lambda>secret. hmac_hex secret (orderRef @ ''|'' @ paymentRef)) (RAZORPAY_KEY_SECRET ev)"

text \<open>A catalog webhook request is unauthorized when a header is absent, the API key is
  not the server's, or the signature is not the hex HMAC-SHA256 of the serialized body
  under the server's secret.\<close>

definition unauthorized ::
  "(string \<Rightarrow> string \<Rightarrow> string) \<Rightarrow> env \<Rightarrow> webhook_headers \<Rightarrow> string \<Rightarrow> bool" where
  "unauthorized hmac_hex ev h payload =
     (x_api_key h = None \<or> x_api_hmac_sha256 h = None
      \<or> x_api_key h \<noteq> SHIPROCKET_API_KEY ev
      \<or> x_api_hmac_sha256 h \<noteq> Some (hmac_hex (or_else (SHIPROCKET_API_SECRET ev) []) payload))"

text \<open>The effects a handler added to the trace.\<close>

definition new_events :: "world \<Rightarrow> world \<Rightarrow> event list" where
  "new_events w w' = drop (length (trace w)) (trace w')"

definition ex_verify_body :: "string \<Rightarrow> verify_body" where
  "ex_verify_body sig = \<lparr>vb_razorpayOrderId = Some ''order_abc'',
     vb_razorpayPaymentId = Some ''pay_1'', vb_razorpaySignature = Some sig,
     vb_orderId = Some ''ORD_1''\<rparr>"

definition ex_partner_product :: "string \<Rightarrow> partner_product" where
  "ex_partner_product title = \<lparr>pp_id = ''prod_grape'', pp_title = title, pp_body_html = None,
     pp_product_type = None, pp_updated_at = 1, pp_status = ''active'', pp_variants = None,
     pp_image_src = None\<rparr>"

definition ex_partner_collection :: partner_collection where
  "ex_partner_collection = \<lparr>pc_id = ''coll_citrus'', pc_title = ''Citrus'', pc_body_html = None,
     pc_updated_at = 1, pc_image_src = None\<rparr>"

definition ex_stringify_product :: "partner_product \<Rightarrow> string" where
  "ex_stringify_product pd = pp_id pd @ '','' @ pp_title pd"

definition ex_stringify_collection :: "partner_collection \<Rightarrow> string" where
  "ex_stringify_collection cd = pc_id cd @ '','' @ pc_title cd"

definition ex_parse_float :: "string \<Rightarrow> number option" where
  "ex_parse_float s = (if s = ''49'' then Some 49 else None)"

definition ex_signed :: "string option \<Rightarrow> string option \<Rightarrow> webhook_headers" where
  "ex_signed key sig = \<lparr>x_api_hmac_sha256 = sig, x_api_key = key\<rparr>"

definition ex_cart :: "item list" where
  "ex_cart = [ex_item ''prod_grape'' 2, ex_item ''prod_crate'' 1]"

definition ex_faster_body :: faster_body where
  "ex_faster_body = \<lparr>fb_items = Some ex_cart, fb_customer = Some ex_customer,
     fb_pickupPincode = Some ''411001''\<rparr>"

definition ex_create_order_body :: "number \<Rightarrow> create_order_body" where
  "ex_create_order_body client_amount = \<lparr>cb_amount = Some client_amount, cb_currency = None,
     cb_items = Some ex_cart, cb_customer = Some ex_customer\<rparr>"



text \<open>The order of the specification's packaging example: two cans of 6 \<open>\<times>\<close> 6 \<open>\<times>\<close> 12 at 0.35
  each and one crate of 10 \<open>\<times>\<close> 10 \<open>\<times>\<close> 10 at 0.5. And an order whose only product has been
  deleted from the catalog.\<close>

definition ex_package_order :: order where
  "ex_package_order = ex_order Paid [ex_item ''prod_grape'' 2, ex_item ''prod_crate'' 1]"

definition ex_orphan_order :: order where
  "ex_orphan_order = ex_order Paid [ex_item ''prod_gone'' 3]"


text \<open>The same paid order stored without the customer's e-mail address, which the order
  schema requires.\<close>

definition ex_unmailed_order :: order where
  "ex_unmailed_order = ex_orphan_order\<lparr>customer := ex_customer\<lparr>c_email := []\<rparr>\<rparr>"

definition ex_unmailed_world :: world where
  "ex_unmailed_world = \<lparr>products = [ex_grape, ex_crate], collections = [],
     orders = [ex_unmailed_order], trace = []\<rparr>"

text \<open>A line item is valid in the specification's sense when its product is stored and
  available.\<close>

definition present_available :: "product list \<Rightarrow> item \<Rightarrow> bool" where
  "present_available ps it =
     (case findProduct (productId it) ps of None \<Rightarrow> False | Some p \<Rightarrow> availableForSale p)"

text \<open>A partner update for a product without variants, correctly signed, and the store
  after the product webhook has applied it to the example store.\<close>

definition ex_raw_payload :: partner_product where
  "ex_raw_payload = \<lparr>pp_id = ''prod_raw'', pp_title = ''Raw Brewy'', pp_body_html = None,
     pp_product_type = None, pp_updated_at = 1, pp_status = ''active'', pp_variants = None,
     pp_image_src = None\<rparr>"

definition ex_raw_world :: world where
  "ex_raw_world = snd (product_webhook ex_hmac ex_stringify_product ex_parse_float 7 ex_env
     (ex_signed (Some ''sr-key'') (Some ''sr-secret#prod_raw,Raw Brewy''))
     ex_raw_payload (ex_world Paid []))"

definition ex_raw :: product where
  "ex_raw = \<lparr>p_id = ''prod_raw'', p_name = ''Raw Brewy'', flavor = ''Beverages'',
     p_price = None, p_description = [], p_handle = Some ''raw-brewy'', images = [],
     stock = 0, availableForSale = True, variants = [], p_dimensions = None,
     p_updatedAt = 7\<rparr>"

definition ex_raw_cart :: "item list" where
  "ex_raw_cart = [ex_item ''prod_raw'' 2]"

section \<open>Facts about the document store\<close>

lemma find_update_first_key:
  assumes "\<And>x. k x = b \<Longrightarrow> k (f x) = b"
  shows "find (\<lambda>d. k d = a) (update_first (\<lambda>d. k d = b) f xs) =
         (if a = b then map_option f (find (\<lambda>d. k d = b) xs) else find (\<lambda>d. k d = a) xs)"
  using assms by (induction xs) auto

lemma findOrder_orderId: "findOrder oid os = Some d \<Longrightarrow> orderId d = oid"
  by (auto simp: findOrder_def find_Some_iff)

lemma orders_emit [simp]: "orders (emit e w) = orders w"
  by (simp add: emit_def)

lemma orderId_apply_order_update [simp]: "orderId (apply_order_update u d) = orderId d"
  by (simp add: apply_order_update_def)

lemma status_apply_order_update:
  "status (apply_order_update u d) = (case u_status u of None \<Rightarrow> status d | Some s \<Rightarrow> s)"
  by (simp add: apply_order_update_def)

lemma findOrder_update_order:
  "findOrder a (orders (snd (update_order b u w))) =
     (if a = b then map_option (apply_order_update u) (findOrder b (orders w))
      else findOrder a (orders w))"
  by (auto simp: update_order_def findOneAndUpdate_def findOrder_def emit_def
        find_update_first_key split: option.splits)

lemma moved_refl: "moved s w w"
  by (simp add: moved_def)

lemma moved_emit: "moved s w w' \<Longrightarrow> moved s w (emit e w')"
  by (simp add: moved_def)

lemma moved_emit_left: "moved s (emit e w) w' \<Longrightarrow> moved s w w'"
  by (simp add: moved_def)

lemma moved_update_order: "moved (u_status u) w (snd (update_order oid u w))"
  by (auto simp: moved_def findOrder_update_order status_apply_order_update split: option.splits)

lemma update_order_snd: "update_order oid u w = (r, w') \<Longrightarrow> w' = snd (update_order oid u w)"
  by simp

lemma moved_respond_order:
  "moved s w (snd r) \<Longrightarrow> moved s w (snd (respond_order r))"
  by (cases r) (auto simp: respond_order_def split: option.splits)

lemma moved_update_order': "u_status u = s \<Longrightarrow> moved s w (snd (update_order oid u w))"
  using moved_update_order by blast

lemma moved_patch_status: "moved st w (snd (patch_status oid st w))"
  unfolding patch_status_def
  by (rule moved_respond_order, rule moved_update_order') simp

lemma moved_patch_payment:
  "moved (Some (case pb_status b of None \<Rightarrow> Paid | Some s \<Rightarrow> s)) w (snd (patch_payment oid b w))"
  unfolding patch_payment_def
  by (rule moved_respond_order, rule moved_update_order') simp

lemma moved_patch_shipment: "moved (Some Shipped) w (snd (patch_shipment oid b w))"
  unfolding patch_shipment_def
  by (rule moved_respond_order, rule moved_update_order') simp

lemma snd_case_update:
  "snd (case r of (None, w') \<Rightarrow> (a, w') | (Some d, w') \<Rightarrow> (f d, w')) = snd r"
  by (cases r) (auto split: option.splits)

lemma moved_verify_payment: "moved (Some Paid) w (snd (verify_payment hm ev b w))"
  unfolding verify_payment_def Let_def
  by (auto simp: moved_refl snd_case_update intro!: moved_update_order')

lemma moved_faster_webhook:
  "moved (u_status (webhook_update b)) w (snd (faster_webhook b w))"
  unfolding faster_webhook_def
  by (auto simp: moved_refl snd_case_update intro!: moved_update_order')

lemma moved_faster_verify:
  "moved (case c of Inl err \<Rightarrow> None
      | Inr r \<Rightarrow> Some (if fr_payment_status r = Some ''paid'' then Paid else Created)) w
     (snd (faster_verify c b w))"
  unfolding faster_verify_def Let_def
  by (auto simp: moved_refl moved_emit snd_case_update split: sum.splits option.splits
      intro!: moved_emit_left[OF moved_update_order'])

lemma moved_cancel_route: "moved (Some Failed) w (snd (cancel_route c msg collab oid w))"
  unfolding cancel_route_def Let_def
  by (auto simp: moved_refl moved_emit split: option.splits
      intro!: moved_emit_left[OF moved_update_order'])

lemma moved_admin_only:
  "moved s w (snd (handler w)) \<Longrightarrow> moved s w (snd (admin_only jv ev h handler w))"
  by (auto simp: admin_only_def moved_refl split: option.splits)

lemma findOrder_replace:
  assumes "orderId d0' = k"
  shows "findOrder oid (update_first (\<lambda>x. orderId x = k) (\<lambda>x. d0') os) =
         (if oid = k then map_option (\<lambda>x. d0') (findOrder k os) else findOrder oid os)"
  unfolding findOrder_def
  using find_update_first_key[of orderId k "\<lambda>x. d0'" oid os] assms by simp

lemma shipment_create_effect:
  assumes "findOrder oid (orders w) = Some d"
  shows "\<exists>d'. findOrder oid (orders (snd (shipment_create ar c b w))) = Some d' \<and>
           (status d' = status d \<or> (status d = Paid \<and> status d' = Shipped))"
proof (cases "truthy (sc_orderId b)")
  case False
  then show ?thesis using assms by (simp add: shipment_create_def)
next
  case True
  let ?k = "or_else (sc_orderId b) []"
  show ?thesis
  proof (cases "findOrder ?k (orders w)")
    case None
    then show ?thesis using assms True by (simp add: shipment_create_def)
  next
    case (Some d0)
    then have k: "orderId d0 = ?k" by (rule findOrder_orderId)
    show ?thesis
    proof (cases "status d0 = Paid")
      case False
      then show ?thesis using assms True Some by (simp add: shipment_create_def)
    next
      case paid: True
      show ?thesis
      proof (cases c)
        case (Inl err)
        then show ?thesis using assms True Some paid by (simp add: shipment_create_def Let_def)
      next
        case (Inr r)
        obtain a ba where r: "r = (a, ba)" by (cases r)
        have "orderId (d0\<lparr>shiprocketOrderId := a, shiprocketShipmentId := ba, status := Shipped\<rparr>) = ?k"
          using k by simp
        note rep = findOrder_replace[OF this, of oid "orders w"]
        show ?thesis
          using assms True Some paid Inr r rep
          by (auto simp: shipment_create_def Let_def)
      qed
    qed
  qed
qed

lemma moved_shipment_create: "moved (Some Shipped) w (snd (shipment_create ar c b w))"
  unfolding moved_def
proof (intro allI impI)
  fix oid d
  assume "findOrder oid (orders w) = Some d"
  from shipment_create_effect[OF this, of ar c b]
  show "\<exists>d'. findOrder oid (orders (snd (shipment_create ar c b w))) = Some d' \<and>
         (status d' = status d \<or> Some Shipped = Some (status d'))"
    by auto
qed

lemma moved_apply_mutation: "moved (written_status m) w (snd (apply_mutation ar jv hm ev m w))"
proof (cases m)
  case (VerifyPayment b)
  then show ?thesis by (simp add: moved_verify_payment)
next
  case (PatchStatus h oid st)
  then show ?thesis by (simp add: moved_admin_only moved_patch_status)
next
  case (PatchPayment oid b)
  then show ?thesis by (simp add: moved_patch_payment)
next
  case (PatchShipment h oid b)
  then show ?thesis by (simp add: moved_admin_only moved_patch_shipment)
next
  case (FasterWebhook b)
  then show ?thesis by (simp add: moved_faster_webhook)
next
  case (FasterVerify c b)
  then show ?thesis using moved_faster_verify[of c w b] by simp
next
  case (FasterCancel h c oid)
  then show ?thesis by (simp add: moved_admin_only faster_cancel_def moved_cancel_route)
next
  case (ShipmentCancel h c oid)
  then show ?thesis by (simp add: moved_admin_only shipment_cancel_def moved_cancel_route)
next
  case (ShipmentCreate h c b)
  then show ?thesis by (simp add: moved_admin_only moved_shipment_create)
qed

lemma moved_run:
  "findOrder oid (orders w) = Some d \<Longrightarrow>
   \<exists>d'. findOrder oid (orders (run ar jv hm ev ms w)) = Some d' \<and>
        (status d' = status d \<or> (\<exists>m\<in>set ms. written_status m = Some (status d')))"
proof (induction ms arbitrary: w d)
  case Nil
  then show ?case by simp
next
  case (Cons m ms)
  from moved_apply_mutation[of m w ar jv hm ev] Cons.prems
  obtain d1 where d1: "findOrder oid (orders (snd (apply_mutation ar jv hm ev m w))) = Some d1"
    and s1: "status d1 = status d \<or> written_status m = Some (status d1)"
    unfolding moved_def by blast
  from Cons.IH[OF d1]
  obtain d' where d': "findOrder oid (orders (run ar jv hm ev ms (snd (apply_mutation ar jv hm ev m w)))) = Some d'"
    and s': "status d' = status d1 \<or> (\<exists>m\<in>set ms. written_status m = Some (status d'))"
    by blast
  show ?case using d' s' s1 by auto
qed

lemma shipment_guard:
  assumes "findOrder oid (orders w) = Some d" "is_shipment_create m"
    "findOrder oid (orders (snd (apply_mutation ar jv hm ev m w))) = Some d1" "status d1 \<noteq> status d"
  shows "status d = Paid \<and> status d1 = Shipped"
proof -
  obtain h c b where m: "m = ShipmentCreate h c b" using assms(2) by (cases m) auto
  show ?thesis
  proof (cases "authenticateAdmin jv ev h")
    case None
    then show ?thesis using assms m shipment_create_effect[OF assms(1), of ar c b]
      by (auto simp: admin_only_def)
  next
    case (Some r)
    then show ?thesis using assms m by (auto simp: admin_only_def)
  qed
qed

section \<open>Facts about checkout session creation\<close>

lemma calc_total_valid:
  "list_all (valid_line ps) its \<Longrightarrow>
   calc_total ar ps its (Some t)
     = Inr (Some (foldl (\<lambda>total it. fadd ar total (fmul ar (stored_price ps it) (quantity it))) t its))"
proof (induction its arbitrary: t)
  case Nil
  then show ?case by simp
next
  case (Cons it its)
  from Cons.prems have v: "valid_line ps it" and rest: "list_all (valid_line ps) its"
    by simp_all
  from v obtain p where p0: "findProduct (productId it) ps = Some p" "availableForSale p"
      "p_price p \<noteq> None"
    by (cases "findProduct (productId it) ps") (auto simp: valid_line_def)
  then obtain pr where pr: "p_price p = Some pr" by auto
  have sp: "stored_price ps it = pr" using p0 pr by (simp add: stored_price_def)
  from Cons.IH[OF rest, of "fadd ar t (fmul ar pr (quantity it))"]
  show ?case using p0 pr sp by (simp add: nan_add_def nan_mul_def)
qed

lemma checkout_loop_valid:
  "list_all (valid_line ps) its \<Longrightarrow>
   \<exists>prods. checkout_loop ar ps its (Some t) acc
     = Inr (Some (foldl (\<lambda>total it. fadd ar total (fmul ar (stored_price ps it) (quantity it))) t its),
            prods)"
proof (induction its arbitrary: t acc)
  case Nil
  then show ?case by simp
next
  case (Cons it its)
  from Cons.prems have v: "valid_line ps it" and rest: "list_all (valid_line ps) its"
    by simp_all
  from v obtain p where p0: "findProduct (productId it) ps = Some p" "availableForSale p"
      "p_price p \<noteq> None"
    by (cases "findProduct (productId it) ps") (auto simp: valid_line_def)
  then obtain pr where pr: "p_price p = Some pr" by auto
  have sp: "stored_price ps it = pr" using p0 pr by (simp add: stored_price_def)
  from Cons.IH[OF rest, of "fadd ar t (fmul ar pr (quantity it))"]
  show ?case using p0 pr sp by (simp add: nan_add_def nan_mul_def)
qed

lemma calc_total_server_total:
  "list_all (valid_line ps) its \<Longrightarrow>
   calc_total ar ps its (Some 0) = Inr (Some (server_total ar ps its))"
  by (simp add: calc_total_valid server_total_def)

lemma checkout_loop_server_total:
  "list_all (valid_line ps) its \<Longrightarrow>
   \<exists>prods. checkout_loop ar ps its (Some 0) acc = Inr (Some (server_total ar ps its), prods)"
  using checkout_loop_valid[of ps its ar 0 acc] by (simp add: server_total_def)

lemma update_first_append_fresh:
  "find P xs = None \<Longrightarrow> P d \<Longrightarrow> update_first P f (xs @ [d]) = xs @ [f d]"
  by (induction xs) (auto split: if_splits)

lemma save_new_order_orders:
  "save_new_order d w = Some w1 \<Longrightarrow>
   orders w1 = orders w @ [d] \<and> trace w1 = trace w @ [OrderSaved (orderId d) (status d)]
   \<and> findOrder (orderId d) (orders w) = None \<and> products w1 = products w"
  by (auto simp: save_new_order_def emit_def split: if_splits)

lemma faster_create_orders:
  assumes "fb_items b = Some its" "list_all (valid_line (products w)) its"
  shows "orders (snd (faster_create ar now collab b w)) = orders w
       \<or> (\<exists>d. orders (snd (faster_create ar now collab b w)) = orders w @ [d]
              \<and> amount d = server_total ar (products w) its \<and> status d = Created)"
proof -
  obtain prods where l: "checkout_loop ar (products w) its (Some 0) [] =
      Inr (Some (server_total ar (products w) its), prods)"
    using checkout_loop_server_total[OF assms(2), of ar "[]"] by auto
  show ?thesis
  proof (cases "fb_customer b")
    case None
    then show ?thesis using assms(1) by (simp add: faster_create_def)
  next
    case (Some cust)
    let ?oid = "''BREWY_'' @ show_nat now"
    let ?d = "new_order ?oid ?oid (server_total ar (products w) its) ''INR'' cust its"
    show ?thesis
    proof (cases "save_new_order ?d w")
      case None
      then show ?thesis using assms(1) Some l by (simp add: faster_create_def Let_def)
    next
      case (Some w1)
      note s = save_new_order_orders[OF Some]
      have f: "find (\<lambda>d. orderId d = ?oid) (orders w) = None" "orderId ?d = ?oid"
        using s by (simp_all add: findOrder_def new_order_def)
      have u: "update_first (\<lambda>d. orderId d = ?oid) g (orders w @ [?d]) = orders w @ [g ?d]" for g
        using update_first_append_fresh[OF f(1), of ?d g] f(2) by simp
      show ?thesis
        using assms(1) \<open>fb_customer b = Some cust\<close> l Some s u
        by (auto simp: faster_create_def Let_def emit_def new_order_def split: sum.splits)
    qed
  qed
qed

lemma create_order_orders:
  assumes "cb_items b = Some its" "list_all (valid_line (products w)) its"
  shows "orders (snd (create_order ar ev now collab b w)) = orders w
       \<or> (\<exists>d. orders (snd (create_order ar ev now collab b w)) = orders w @ [d]
              \<and> amount d = server_total ar (products w) its \<and> status d = Created)"
proof -
  note l = calc_total_server_total[OF assms(2), of ar]
  let ?oid = "''ORD_'' @ show_nat now"
  let ?cur = "or_else (cb_currency b) ''INR''"
  let ?w1 = "emit (RazorpayRequested (Some (server_total ar (products w) its)) ?cur ?oid) w"
  show ?thesis
  proof (cases "cb_customer b")
    case None
    then show ?thesis using assms(1) by (simp add: create_order_def)
  next
    case (Some cust)
    show ?thesis
    proof (cases collab)
      case None
      then show ?thesis using assms(1) Some l by (simp add: create_order_def Let_def)
    next
      case c: (Some r)
      obtain rz_id rz_currency where r: "r = (rz_id, rz_currency)" by (cases r)
      let ?d = "new_order ?oid rz_id (server_total ar (products w) its) ?cur cust its"
      show ?thesis
      proof (cases "save_new_order ?d ?w1")
        case None
        then show ?thesis using assms(1) Some l c r by (simp add: create_order_def Let_def)
      next
        case w2: (Some w2)
        note s = save_new_order_orders[OF w2]
        show ?thesis
          using assms(1) Some l c r w2 s
          by (simp add: create_order_def Let_def new_order_def)
      qed
    qed
  qed
qed

lemma create_order_ignores_amount:
  "a \<noteq> 0 \<Longrightarrow> a' \<noteq> 0 \<Longrightarrow>
   create_order ar ev now collab (b\<lparr>cb_amount := Some a\<rparr>) w
     = create_order ar ev now collab (b\<lparr>cb_amount := Some a'\<rparr>) w"
  by (simp add: create_order_def cong: sum.case_cong option.case_cong)

lemma findOrder_append_fresh:
  "findOrder oid os = None \<Longrightarrow> orderId d = oid \<Longrightarrow> findOrder oid (os @ [d]) = Some d"
  unfolding findOrder_def by (induction os) (auto split: if_splits)

lemma faster_create_shape:
  fixes ar now collab b w
  defines "r \<equiv> faster_create ar now collab b w"
  defines "oid \<equiv> ''BREWY_'' @ show_nat now"
  shows "(new_events w (snd r) = [] \<and> orders (snd r) = orders w)
       \<or> (\<exists>amt prods d. take 2 (new_events w (snd r)) = [OrderSaved oid Created, CheckoutRequested oid amt prods]
             \<and> findOrder oid (orders w) = None
             \<and> findOrder oid (orders (snd r)) = Some d \<and> status d = Created \<and> amount d = amt
             \<and> (\<forall>err. collab = Inl err \<longrightarrow> fst r = ErrorResp 500 err
                    \<and> new_events w (snd r) = [OrderSaved oid Created, CheckoutRequested oid amt prods]))"
proof -
  have quiet: "new_events w w = []" by (simp add: new_events_def)
  show ?thesis
  proof (cases "fb_items b")
    case None
    then show ?thesis by (simp add: r_def faster_create_def quiet)
  next
    case its: (Some its)
    show ?thesis
    proof (cases "fb_customer b")
      case None
      then show ?thesis using its by (simp add: r_def faster_create_def quiet)
    next
      case cust: (Some cust)
      show ?thesis
      proof (cases "truthy (fb_pickupPincode b)")
        case False
        then show ?thesis using its cust by (simp add: r_def faster_create_def quiet)
      next
        case pin: True
        show ?thesis
        proof (cases "checkout_loop ar (products w) its (Some 0) []")
          case (Inl e)
          then show ?thesis using its cust pin by (simp add: r_def faster_create_def quiet)
        next
          case (Inr tp)
          obtain total prods where tp: "tp = (total, prods)" by (cases tp)
          show ?thesis
          proof (cases total)
            case None
            then show ?thesis using its cust pin Inr tp
              by (simp add: r_def faster_create_def quiet)
          next
            case amt: (Some amt)
            let ?d = "new_order oid oid amt ''INR'' cust its"
            show ?thesis
            proof (cases "save_new_order ?d w")
              case None
              then show ?thesis using its cust pin Inr tp amt
                by (simp add: r_def oid_def faster_create_def quiet)
            next
              case w1: (Some w1)
              note s = save_new_order_orders[OF w1]
              have d: "orderId ?d = oid" "status ?d = Created" "amount ?d = amt"
                by (simp_all add: new_order_def)
              have fresh: "findOrder oid (orders w) = None" using s d by simp
              then have f: "find (\<lambda>x. orderId x = oid) (orders w) = None"
                by (simp add: findOrder_def)
              have u: "update_first (\<lambda>x. orderId x = oid) g (orders w @ [?d]) = orders w @ [g ?d]" for g
                using update_first_append_fresh[OF f, of ?d g] d by simp
              show ?thesis
              proof (cases collab)
                case (Inl err)
                then have "r = (ErrorResp 500 err, emit (CheckoutRequested oid amt prods) w1)"
                  using its cust pin Inr tp amt w1
                  by (simp add: r_def oid_def faster_create_def)
                then show ?thesis
                  using s d fresh Inl findOrder_append_fresh[OF fresh d(1)]
                  by (simp add: new_events_def emit_def)
              next
                case c: (Inr cc)
                obtain cid curl where cc: "cc = (cid, curl)" by (cases cc)
                let ?g = "\<lambda>x. x\<lparr>razorpayOrderId := or_else cid oid\<rparr>"
                have "snd r = emit (OrderSaved oid Created)
                   ((emit (CheckoutRequested oid amt prods) w1)\<lparr>orders := orders w @ [?g ?d]\<rparr>)"
                  using its cust pin Inr tp amt w1 c cc s u[of ?g]
                  by (simp add: r_def oid_def faster_create_def Let_def)
                moreover have "findOrder oid (orders w @ [?g ?d]) = Some (?g ?d)"
                  using findOrder_append_fresh[OF fresh, of "?g ?d"] d by simp
                ultimately show ?thesis
                  using s d fresh c
                  by (simp add: new_events_def emit_def)
              qed
            qed
          qed
        qed
      qed
    qed
  qed
qed

lemma create_order_shape:
  fixes ar ev now collab b w
  defines "r \<equiv> create_order ar ev now collab b w"
  defines "oid \<equiv> ''ORD_'' @ show_nat now"
  shows "(new_events w (snd r) = [] \<and> orders (snd r) = orders w)
       \<or> (\<exists>total cur. take 1 (new_events w (snd r)) = [RazorpayRequested total cur oid]
             \<and> (collab = None \<longrightarrow> orders (snd r) = orders w
                    \<and> new_events w (snd r) = [RazorpayRequested total cur oid]
                    \<and> fst r = ErrorResp 500 ''Failed to create Razorpay order'')
             \<and> (orders (snd r) \<noteq> orders w \<longrightarrow>
                    (\<exists>d. orders (snd r) = orders w @ [d] \<and> orderId d = oid \<and> status d = Created
                       \<and> new_events w (snd r) = [RazorpayRequested total cur oid, OrderSaved oid Created])))"
proof -
  have quiet: "new_events w w = []" by (simp add: new_events_def)
  show ?thesis
  proof (cases "cb_items b")
    case None
    then show ?thesis by (simp add: r_def create_order_def quiet)
  next
    case its: (Some its)
    show ?thesis
    proof (cases "cb_customer b")
      case None
      then show ?thesis using its by (simp add: r_def create_order_def quiet)
    next
      case cust: (Some cust)
      show ?thesis
      proof (cases "cb_amount b = None \<or> cb_amount b = Some 0")
        case True
        then show ?thesis using its cust by (auto simp add: r_def create_order_def quiet)
      next
        case False
        then have amt: "(cb_amount b = None \<or> cb_amount b = Some 0) = False" by simp
        show ?thesis
        proof (cases "calc_total ar (products w) its (Some 0)")
          case (Inl e)
          then show ?thesis using its cust by (simp add: r_def create_order_def quiet amt del: de_Morgan_disj)
        next
          case (Inr total)
          let ?cur = "or_else (cb_currency b) ''INR''"
          let ?w1 = "emit (RazorpayRequested total ?cur oid) w"
          have ne: "new_events w ?w1 = [RazorpayRequested total ?cur oid]"
            by (simp add: new_events_def emit_def)
          show ?thesis
          proof (cases collab)
            case None
            then have "r = (ErrorResp 500 ''Failed to create Razorpay order'', ?w1)"
              using its cust Inr by (simp add: r_def oid_def create_order_def Let_def amt del: de_Morgan_disj)
            then show ?thesis using ne None by simp
          next
            case c: (Some cc)
            obtain rz_id rz_currency where cc: "cc = (rz_id, rz_currency)" by (cases cc)
            show ?thesis
            proof (cases total)
              case None
              then have "snd r = ?w1"
                using its cust Inr c cc by (simp add: r_def oid_def create_order_def Let_def amt del: de_Morgan_disj)
              then show ?thesis using ne c by simp
            next
              case t: (Some a)
              let ?d = "new_order oid rz_id a ?cur cust its"
              show ?thesis
              proof (cases "save_new_order ?d ?w1")
                case None
                then have "snd r = ?w1"
                  using its cust Inr c cc t
                  by (simp add: r_def oid_def create_order_def Let_def amt del: de_Morgan_disj)
                then show ?thesis using ne c by simp
              next
                case w2: (Some w2)
                note s = save_new_order_orders[OF w2]
                have d: "orderId ?d = oid" "status ?d = Created" by (simp_all add: new_order_def)
                have "snd r = w2"
                  using its cust Inr c cc t w2
                  by (simp add: r_def oid_def create_order_def Let_def amt del: de_Morgan_disj)
                then show ?thesis using s d c
                  by (simp add: new_events_def emit_def)
              qed
            qed
          qed
        qed
      qed
    qed
  qed
qed

lemmas ex_defs = ex_env_def ex_admin_def ex_hmac_def ex_jwt_def ex_grape_def ex_crate_def
  ex_customer_def ex_item_def ex_order_def ex_world_def

lemmas route_defs = admin_only_def authenticateAdmin_def patch_status_def patch_payment_def
  patch_shipment_def respond_order_def update_order_def findOneAndUpdate_def findOrder_def
  apply_order_update_def no_update_def keep_def emit_def truthy_def or_else_def Let_def

lemmas ship_defs = shipment_create_def shiprocketData_def package_loop_def package_step_def
  package_init_def findProduct_def num_or_def faster_webhook_def webhook_update_def
  valid_order_def valid_item_def

section \<open>The order state machine\<close>

text \<open>
  C1, as the specification states it: along every sequence of public mutations the status
  of an order changes only by created \<open>\<rightarrow>\<close> paid, created \<open>\<rightarrow>\<close> failed, paid \<open>\<rightarrow>\<close> shipped,
  paid \<open>\<rightarrow>\<close> failed or shipped \<open>\<rightarrow>\<close> delivered. The routes do not hold this: the admin
  status patch writes whatever status the request names. Here it takes a delivered order
  back to created, which is no transition of the table.
\<close>

theorem status_patch_reopens_delivered:
  "findOrder ''ORD_1'' (orders (ex_world Delivered [])) = Some (ex_order Delivered [])
   \<and> findOrder ''ORD_1'' (orders (snd (apply_mutation ex_arith ex_jwt ex_hmac ex_env
          (PatchStatus ex_admin ''ORD_1'' (Some Created)) (ex_world Delivered []))))
       = Some (ex_order Created [])
   \<and> \<not> allowed_transition Delivered Created"
  by (simp add: ex_defs route_defs)

text \<open>
  C1, amended: along every sequence of public mutations an order stays stored, and its
  status after the sequence is its initial status or the status one of the requests asked
  to write (paid for verify-payment, shipped for the shipment patch and for shipment
  creation, failed for a cancel, the status named by a status or payment patch, the status
  derived from the payload for the checkout webhook and checkout verification). Only
  shipment creation looks at the current status: when it changes the status of an order,
  that order was paid and becomes shipped.
\<close>

theorem ledger_status_follows_requests:
  assumes "findOrder oid (orders w) = Some d"
  shows "(\<exists>d'. findOrder oid (orders (run ar jv hm ev ms w)) = Some d' \<and>
            (status d' = status d \<or> (\<exists>m\<in>set ms. written_status m = Some (status d'))))
       \<and> (\<forall>m d1. is_shipment_create m \<longrightarrow>
              findOrder oid (orders (snd (apply_mutation ar jv hm ev m w))) = Some d1 \<longrightarrow>
              status d1 \<noteq> status d \<longrightarrow> status d = Paid \<and> status d1 = Shipped)"
  using moved_run[OF assms] shipment_guard[OF assms] by blast

text \<open>C1, amended, on a paid order: shipment creation marks it shipped, and after the
  delivery webhook that follows the status is one a request wrote.\<close>

theorem ledger_status_follows_requests_witness:
  "findOrder ''ORD_1'' (orders (ex_world Paid [])) = Some (ex_order Paid [])
   \<and> is_shipment_create ex_ship
   \<and> findOrder ''ORD_1'' (orders (snd (apply_mutation ex_arith ex_jwt ex_hmac ex_env ex_ship (ex_world Paid []))))
        = Some (marked_shipped (ex_order Paid []) (Some ''77'') (Some ''88''))
   \<and> (\<exists>d'. findOrder ''ORD_1'' (orders (run ex_arith ex_jwt ex_hmac ex_env [ex_ship, ex_delivered] (ex_world Paid []))) = Some d'
         \<and> (status d' = Paid \<or> (\<exists>m\<in>set [ex_ship, ex_delivered]. written_status m = Some (status d'))))"
  using ledger_status_follows_requests[where oid = "''ORD_1''" and w = "ex_world Paid []"
          and d = "ex_order Paid []" and ar = ex_arith and jv = ex_jwt and hm = ex_hmac
          and ev = ex_env and ms = "[ex_ship, ex_delivered]"]
  by (simp add: ex_defs route_defs ship_defs ex_ship_def ex_delivered_def marked_shipped_def)

section \<open>The precondition of shipment creation\<close>

lemma valid_order_marked_shipped [simp]:
  "valid_order (marked_shipped d sr_oid sr_sid) = valid_order d"
  by (simp add: valid_order_def marked_shipped_def)

lemma patch_shipment_effect:
  assumes "findOrder oid (orders w) = Some d"
  shows "\<exists>d'. fst (patch_shipment oid sb w) = OrderResp d'
            \<and> findOrder oid (orders (snd (patch_shipment oid sb w))) = Some d'
            \<and> status d' = Shipped"
proof -
  let ?u = "no_update\<lparr>u_shiprocketOrderId := sb_shiprocketOrderId sb,
                u_shiprocketShipmentId := sb_shiprocketShipmentId sb,
                u_trackingUrl := sb_trackingUrl sb,
                u_status := Some Shipped\<rparr>"
  have f: "find (\<lambda>x. orderId x = oid) (orders w) = Some d"
    using assms by (simp add: findOrder_def)
  have r: "fst (patch_shipment oid sb w) = OrderResp (apply_order_update ?u d)"
    using f by (simp add: patch_shipment_def respond_order_def update_order_def
          findOneAndUpdate_def)
  have "findOrder oid (orders (snd (update_order oid ?u w))) = Some (apply_order_update ?u d)"
    using assms by (simp add: findOrder_update_order)
  moreover have "snd (patch_shipment oid sb w) = snd (update_order oid ?u w)"
    using f by (simp add: patch_shipment_def respond_order_def update_order_def
          findOneAndUpdate_def)
  ultimately have o: "findOrder oid (orders (snd (patch_shipment oid sb w)))
      = Some (apply_order_update ?u d)"
    by simp
  have "status (apply_order_update ?u d) = Shipped"
    by (simp add: status_apply_order_update)
  with r o show ?thesis by blast
qed

text \<open>
  C2, as the specification states it: marking an order shipped fails with a precondition
  error, and changes nothing, unless the order is paid. The admin route
  \<open>PATCH /:orderId/shipment\<close>, which records the shipment references and marks the order
  shipped, has no such check: on an order that is still created it succeeds.
\<close>

theorem shipment_patch_ignores_status:
  "status (ex_order Created []) \<noteq> Paid
   \<and> admin_only ex_jwt ex_env ex_admin
        (patch_shipment ''ORD_1''
           \<lparr>sb_shiprocketOrderId = Some ''77'', sb_shiprocketShipmentId = Some ''88'',
            sb_trackingUrl = None\<rparr>) (ex_world Created [])
      = (OrderResp (marked_shipped (ex_order Created []) (Some ''77'') (Some ''88'')),
         (ex_world Created [])\<lparr>
            orders := [marked_shipped (ex_order Created []) (Some ''77'') (Some ''88'')],
            trace := [OrderUpdated ''ORD_1'']\<rparr>)"
  by (simp add: ex_defs route_defs marked_shipped_def)

text \<open>
  C2, amended: for an authenticated request that names a stored order, shipment creation
  (\<open>POST /create\<close> of the shipment routes) fails with status 400 and leaves the store as it
  was when the order is not paid. When the order is paid it goes on to ask the shipping
  collaborator for a shipment of that order; when the collaborator succeeds it marks the
  order shipped, provided the stored order passes the schema validators that run on
  saving it, and otherwise answers 500 and leaves the order as it was. The admin route
  \<open>PATCH /:orderId/shipment\<close> marks a stored order shipped whatever its status is.
\<close>

theorem shipment_creation_requires_paid:
  assumes auth: "authenticateAdmin jv ev h = None"
    and body: "sc_orderId b = Some oid" "oid \<noteq> []"
    and found: "findOrder oid (orders w) = Some d"
  shows "(status d \<noteq> Paid \<longrightarrow>
            admin_only jv ev h (shipment_create ar c b) w =
              (ErrorResp 400 ''Order must be paid before creating shipment'', w))
       \<and> (status d = Paid \<longrightarrow>
            take (Suc (length (trace w))) (trace (snd (admin_only jv ev h (shipment_create ar c b) w)))
              = trace w @ [ShipmentRequested (shiprocketData ar (products w) d (sc_pickupLocation b))]
          \<and> (\<forall>sr_oid sr_sid. c = Inr (sr_oid, sr_sid) \<longrightarrow>
                (valid_order d \<longrightarrow>
                   fst (admin_only jv ev h (shipment_create ar c b) w)
                     = ShipmentCreatedResp sr_oid sr_sid (marked_shipped d sr_oid sr_sid)
                 \<and> findOrder oid (orders (snd (admin_only jv ev h (shipment_create ar c b) w)))
                     = Some (marked_shipped d sr_oid sr_sid))
              \<and> (\<not> valid_order d \<longrightarrow>
                   fst (admin_only jv ev h (shipment_create ar c b) w)
                     = ErrorResp 500 ''Failed to create shipment''
                 \<and> orders (snd (admin_only jv ev h (shipment_create ar c b) w)) = orders w)))
       \<and> (\<exists>d'. fst (admin_only jv ev h (patch_shipment oid sb) w) = OrderResp d'
              \<and> findOrder oid (orders (snd (admin_only jv ev h (patch_shipment oid sb) w))) = Some d'
              \<and> status d' = Shipped)"
proof -
  have k: "or_else (sc_orderId b) [] = oid" "truthy (sc_orderId b)"
    using body by (simp_all add: or_else_def truthy_def)
  have oid: "orderId d = oid" using found by (rule findOrder_orderId)
  have rep: "findOrder oid (update_first (\<lambda>x. orderId x = oid) (\<lambda>x. marked_shipped d a s) (orders w))
      = Some (marked_shipped d a s)" for a s
    using findOrder_replace[of "marked_shipped d a s" oid oid "orders w"] oid found
    by (simp add: marked_shipped_def)
  have v: "valid_order (d\<lparr>shiprocketOrderId := a, shiprocketShipmentId := s, status := Shipped\<rparr>)
      = valid_order d" for a s
    using valid_order_marked_shipped[of d a s] by (simp add: marked_shipped_def)
  have create: "(status d \<noteq> Paid \<longrightarrow>
            admin_only jv ev h (shipment_create ar c b) w =
              (ErrorResp 400 ''Order must be paid before creating shipment'', w))
       \<and> (status d = Paid \<longrightarrow>
            take (Suc (length (trace w))) (trace (snd (admin_only jv ev h (shipment_create ar c b) w)))
              = trace w @ [ShipmentRequested (shiprocketData ar (products w) d (sc_pickupLocation b))]
          \<and> (\<forall>sr_oid sr_sid. c = Inr (sr_oid, sr_sid) \<longrightarrow>
                (valid_order d \<longrightarrow>
                   fst (admin_only jv ev h (shipment_create ar c b) w)
                     = ShipmentCreatedResp sr_oid sr_sid (marked_shipped d sr_oid sr_sid)
                 \<and> findOrder oid (orders (snd (admin_only jv ev h (shipment_create ar c b) w)))
                     = Some (marked_shipped d sr_oid sr_sid))
              \<and> (\<not> valid_order d \<longrightarrow>
                   fst (admin_only jv ev h (shipment_create ar c b) w)
                     = ErrorResp 500 ''Failed to create shipment''
                 \<and> orders (snd (admin_only jv ev h (shipment_create ar c b) w)) = orders w)))"
    using auth k found rep v
    by (auto simp: admin_only_def shipment_create_def Let_def emit_def marked_shipped_def
          split: sum.splits)
  have patch: "\<exists>d'. fst (admin_only jv ev h (patch_shipment oid sb) w) = OrderResp d'
              \<and> findOrder oid (orders (snd (admin_only jv ev h (patch_shipment oid sb) w))) = Some d'
              \<and> status d' = Shipped"
    using auth patch_shipment_effect[OF found, of sb] by (simp add: admin_only_def)
  from create patch show ?thesis by blast
qed

text \<open>C2, amended, on the example order: refused while created, shipped once paid; and on
  the paid order stored without the customer's e-mail address: requested from the
  collaborator, refused by the save, still paid.\<close>

theorem shipment_creation_requires_paid_witness:
  "authenticateAdmin ex_jwt ex_env ex_admin = None
   \<and> findOrder ''ORD_1'' (orders (ex_world Created [])) = Some (ex_order Created [])
   \<and> status (ex_order Created []) \<noteq> Paid
   \<and> admin_only ex_jwt ex_env ex_admin
        (shipment_create ex_arith (Inr (Some ''77'', Some ''88'')) ex_create_body) (ex_world Created [])
      = (ErrorResp 400 ''Order must be paid before creating shipment'', ex_world Created [])
   \<and> findOrder ''ORD_1'' (orders (ex_world Paid [])) = Some (ex_order Paid [])
   \<and> status (ex_order Paid []) = Paid
   \<and> valid_order (ex_order Paid [])
   \<and> findOrder ''ORD_1'' (orders (snd (admin_only ex_jwt ex_env ex_admin
        (shipment_create ex_arith (Inr (Some ''77'', Some ''88'')) ex_create_body) (ex_world Paid []))))
      = Some (marked_shipped (ex_order Paid []) (Some ''77'') (Some ''88''))
   \<and> findOrder ''ORD_1'' (orders ex_unmailed_world) = Some ex_unmailed_order
   \<and> status ex_unmailed_order = Paid
   \<and> \<not> valid_order ex_unmailed_order
   \<and> fst (admin_only ex_jwt ex_env ex_admin
        (shipment_create ex_arith (Inr (Some ''77'', Some ''88'')) ex_create_body) ex_unmailed_world)
      = ErrorResp 500 ''Failed to create shipment''
   \<and> orders (snd (admin_only ex_jwt ex_env ex_admin
        (shipment_create ex_arith (Inr (Some ''77'', Some ''88'')) ex_create_body) ex_unmailed_world))
      = orders ex_unmailed_world"
proof -
  have auth: "authenticateAdmin ex_jwt ex_env ex_admin = None"
    by (simp add: authenticateAdmin_def ex_env_def ex_admin_def)
  have body: "sc_orderId ex_create_body = Some ''ORD_1''" "''ORD_1'' \<noteq> []"
    by (simp_all add: ex_create_body_def)
  have ufound: "findOrder ''ORD_1'' (orders ex_unmailed_world) = Some ex_unmailed_order"
    by (simp add: findOrder_def ex_unmailed_world_def ex_unmailed_order_def
          ex_orphan_order_def ex_order_def)
  have upaid: "status ex_unmailed_order = Paid"
    by (simp add: ex_unmailed_order_def ex_orphan_order_def ex_order_def)
  have uinvalid: "\<not> valid_order ex_unmailed_order"
    by (simp add: valid_order_def ex_unmailed_order_def)
  note unmailed = shipment_creation_requires_paid[OF auth body ufound,
      where ar = ex_arith and c = "Inr (Some ''77'', Some ''88'')"]
  from unmailed upaid uinvalid have failed: "fst (admin_only ex_jwt ex_env ex_admin
        (shipment_create ex_arith (Inr (Some ''77'', Some ''88'')) ex_create_body) ex_unmailed_world)
      = ErrorResp 500 ''Failed to create shipment''
   \<and> orders (snd (admin_only ex_jwt ex_env ex_admin
        (shipment_create ex_arith (Inr (Some ''77'', Some ''88'')) ex_create_body) ex_unmailed_world))
      = orders ex_unmailed_world"
    by blast
  have found: "findOrder ''ORD_1'' (orders (ex_world st [])) = Some (ex_order st [])" for st
    by (simp add: findOrder_def ex_world_def ex_order_def)
  have st: "status (ex_order Created []) \<noteq> Paid" "status (ex_order Paid []) = Paid"
    by (simp_all add: ex_order_def)
  have valid: "valid_order (ex_order Paid [])"
    by (simp add: valid_order_def ex_order_def ex_customer_def)
  note created = shipment_creation_requires_paid[OF auth body found[of Created],
      where ar = ex_arith and c = "Inr (Some ''77'', Some ''88'')"]
  note paid = shipment_creation_requires_paid[OF auth body found[of Paid],
      where ar = ex_arith and c = "Inr (Some ''77'', Some ''88'')"]
  from created st(1) have refused: "admin_only ex_jwt ex_env ex_admin
        (shipment_create ex_arith (Inr (Some ''77'', Some ''88'')) ex_create_body) (ex_world Created [])
      = (ErrorResp 400 ''Order must be paid before creating shipment'', ex_world Created [])"
    by blast
  from paid st(2) valid have shipped: "findOrder ''ORD_1'' (orders (snd (admin_only ex_jwt ex_env ex_admin
        (shipment_create ex_arith (Inr (Some ''77'', Some ''88'')) ex_create_body) (ex_world Paid []))))
      = Some (marked_shipped (ex_order Paid []) (Some ''77'') (Some ''88''))"
    by blast
  show ?thesis
    by (intro conjI auth found st valid refused shipped ufound upaid uinvalid
          failed[THEN conjunct1] failed[THEN conjunct2])
qed

section \<open>Webhook authentication\<close>

lemma verifyHMAC_rejects:
  "unauthorized hmac_hex ev h payload \<Longrightarrow>
   \<exists>msg. verifyHMAC hmac_hex ev h payload = Some (ErrorResp 401 msg)"
  by (auto simp: unauthorized_def verifyHMAC_def truthy_def)

text \<open>
  C3: a catalog webhook request that lacks the \<open>X-Api-Key\<close> or \<open>X-Api-HMAC-SHA256\<close> header,
  or carries an API key other than the server's, or a signature other than the hex
  HMAC-SHA256 of the serialized body under the server's secret, is answered with status
  401 and leaves every stored record as it was. This holds for the product route and for
  the collection route.
\<close>

theorem unauthorized_webhook_rejected:
  "(unauthorized hmac_hex ev h (stringify_product pd) \<longrightarrow>
      (\<exists>msg. product_webhook hmac_hex stringify_product parse_float now ev h pd w
                = (ErrorResp 401 msg, w)))
   \<and> (unauthorized hmac_hex ev h (stringify_collection cd) \<longrightarrow>
      (\<exists>msg. collection_webhook hmac_hex stringify_collection now ev h cd w
                = (ErrorResp 401 msg, w)))"
  using verifyHMAC_rejects[of hmac_hex ev h "stringify_product pd"]
        verifyHMAC_rejects[of hmac_hex ev h "stringify_collection cd"]
  by (auto simp: product_webhook_def collection_webhook_def)

text \<open>C3 on three requests: no headers, a body altered after signing, a foreign API key.\<close>

theorem unauthorized_webhook_rejected_witness:
  "unauthorized ex_hmac ex_env (ex_signed None None)
      (ex_stringify_product (ex_partner_product ''Grape Brewy''))
   \<and> product_webhook ex_hmac ex_stringify_product ex_parse_float 7 ex_env (ex_signed None None)
        (ex_partner_product ''Grape Brewy'') (ex_world Paid [])
      = (ErrorResp 401 ''Missing authentication headers'', ex_world Paid [])
   \<and> unauthorized ex_hmac ex_env
        (ex_signed (Some ''sr-key'') (Some ''sr-secret#prod_grape,Grape Brewy''))
        (ex_stringify_product (ex_partner_product ''Grape Brewy!''))
   \<and> product_webhook ex_hmac ex_stringify_product ex_parse_float 7 ex_env
        (ex_signed (Some ''sr-key'') (Some ''sr-secret#prod_grape,Grape Brewy''))
        (ex_partner_product ''Grape Brewy!'') (ex_world Paid [])
      = (ErrorResp 401 ''Invalid HMAC signature'', ex_world Paid [])
   \<and> unauthorized ex_hmac ex_env
        (ex_signed (Some ''other-key'') (Some ''sr-secret#coll_citrus,Citrus''))
        (ex_stringify_collection ex_partner_collection)
   \<and> collection_webhook ex_hmac ex_stringify_collection 7 ex_env
        (ex_signed (Some ''other-key'') (Some ''sr-secret#coll_citrus,Citrus''))
        ex_partner_collection (ex_world Paid [])
      = (ErrorResp 401 ''Invalid API key'', ex_world Paid [])"
  using unauthorized_webhook_rejected[where hmac_hex = ex_hmac and ev = ex_env
          and h = "ex_signed None None" and stringify_product = ex_stringify_product
          and pd = "ex_partner_product ''Grape Brewy''" and parse_float = ex_parse_float
          and now = 7 and w = "ex_world Paid []"
          and stringify_collection = ex_stringify_collection and cd = ex_partner_collection]
        unauthorized_webhook_rejected[where hmac_hex = ex_hmac and ev = ex_env
          and h = "ex_signed (Some ''sr-key'') (Some ''sr-secret#prod_grape,Grape Brewy'')"
          and stringify_product = ex_stringify_product
          and pd = "ex_partner_product ''Grape Brewy!''" and parse_float = ex_parse_float
          and now = 7 and w = "ex_world Paid []"
          and stringify_collection = ex_stringify_collection and cd = ex_partner_collection]
        unauthorized_webhook_rejected[where hmac_hex = ex_hmac and ev = ex_env
          and h = "ex_signed (Some ''other-key'') (Some ''sr-secret#coll_citrus,Citrus'')"
          and stringify_product = ex_stringify_product
          and pd = "ex_partner_product ''Grape Brewy''" and parse_float = ex_parse_float
          and now = 7 and w = "ex_world Paid []"
          and stringify_collection = ex_stringify_collection and cd = ex_partner_collection]
  by (simp add: unauthorized_def ex_signed_def ex_env_def ex_hmac_def ex_stringify_product_def
        ex_stringify_collection_def ex_partner_product_def ex_partner_collection_def
        product_webhook_def collection_webhook_def verifyHMAC_def truthy_def or_else_def)

section \<open>Payment confirmation\<close>

text \<open>
  C4: a payment confirmation carries an order reference, a payment reference and a
  signature. The handler accepts the signature exactly when it is the hex HMAC-SHA256 of
  \<open>orderRef + "|" + paymentRef\<close> under the payment secret. When the supplied signature
  differs from that value the request fails with status 400 and the store is left
  untouched; with the three references non-empty the error is the invalid-signature one.
\<close>

theorem payment_signature_checked_first:
  assumes "vb_razorpayOrderId b = Some ro" "vb_razorpayPaymentId b = Some rp"
    and "vb_razorpaySignature b = Some rs"
  shows "(verifyRazorpayPayment hmac_hex ev ro rp rs
            = (expected_signature hmac_hex ev ro rp = Some rs))
       \<and> (expected_signature hmac_hex ev ro rp \<noteq> Some rs \<longrightarrow>
             snd (verify_payment hmac_hex ev b w) = w
           \<and> (\<exists>msg. fst (verify_payment hmac_hex ev b w) = ErrorResp 400 msg)
           \<and> (ro \<noteq> [] \<and> rp \<noteq> [] \<and> rs \<noteq> [] \<longrightarrow>
                verify_payment hmac_hex ev b w = (ErrorResp 400 ''Invalid payment signature'', w)))"
proof -
  have v: "verifyRazorpayPayment hmac_hex ev ro rp rs = (expected_signature hmac_hex ev ro rp = Some rs)"
    by (auto simp: verifyRazorpayPayment_def expected_signature_def split: option.splits)
  show ?thesis
    using assms v
    by (auto simp: verify_payment_def truthy_def or_else_def Let_def)
qed

text \<open>C4 on a forged signature for the example order.\<close>

theorem payment_signature_checked_first_witness:
  "expected_signature ex_hmac ex_env ''order_abc'' ''pay_1'' = Some ''rzp-secret#order_abc|pay_1''
   \<and> expected_signature ex_hmac ex_env ''order_abc'' ''pay_1'' \<noteq> Some ''forged''
   \<and> verify_payment ex_hmac ex_env (ex_verify_body ''forged'') (ex_world Created [])
       = (ErrorResp 400 ''Invalid payment signature'', ex_world Created [])"
  using payment_signature_checked_first[of "ex_verify_body ''forged''" "''order_abc''" "''pay_1''"
          "''forged''" ex_hmac ex_env "ex_world Created []"]
  by (simp add: ex_verify_body_def expected_signature_def ex_env_def ex_hmac_def)

section \<open>The amount of a checkout session\<close>

lemmas checkout_defs = faster_create_def create_order_def
  save_new_order_def valid_order_def valid_item_def new_order_def nan_add_def nan_mul_def
  findProduct_def findOrder_def emit_def truthy_def or_else_def Let_def
  digit_char_def ex_arith_def

lemma show_nat_42: "show_nat 42 = ''42''"
  by (simp add: show_nat.simps digit_char_def)

lemma slugify_raw_brewy: "slugify ''Raw Brewy'' = ''raw-brewy''"
  by (simp add: slugify_def toLowerCase_def lower_char_def is_space_def)

lemma ex_raw_world_eq:
  "ex_raw_world = emit (CatalogWritten ''prod_raw'')
     ((ex_world Paid [])\<lparr>products := [ex_grape, ex_crate, ex_raw]\<rparr>)"
proof -
  have auth: "verifyHMAC ex_hmac ex_env
        (ex_signed (Some ''sr-key'') (Some ''sr-secret#prod_raw,Raw Brewy''))
        (ex_stringify_product ex_raw_payload) = None"
    by (simp add: verifyHMAC_def ex_signed_def ex_env_def ex_hmac_def ex_stringify_product_def
          ex_raw_payload_def truthy_def or_else_def)
  have u: "product_updateData ex_parse_float ex_raw_payload
      = \<lparr>pu_id = ''prod_raw'', pu_name = ''Raw Brewy'', pu_description = [],
         pu_flavor = ''Beverages'', pu_updatedAt = 1, pu_availableForSale = True,
         pu_price = None, pu_stock = None, pu_variants = None, pu_dimensions = None,
         pu_images = None, pu_handle = Some ''raw-brewy''\<rparr>"
    by (simp add: product_updateData_def ex_raw_payload_def Let_def truthy_def or_else_def
          slugify_raw_brewy)
  have pid: "pp_id ex_raw_payload = ''prod_raw''"
    by (simp add: ex_raw_payload_def)
  have "product_handler ex_parse_float 7 ex_raw_payload (ex_world Paid [])
      = (ProductWebhookResp ''prod_raw'',
         emit (CatalogWritten ''prod_raw'')
           ((ex_world Paid [])\<lparr>products := [ex_grape, ex_crate, ex_raw]\<rparr>))"
    by (simp add: product_handler_def u pid Let_def upsert_def product_of_update_def
          ex_world_def ex_grape_def ex_crate_def ex_raw_def)
  then show ?thesis
    by (simp add: ex_raw_world_def product_webhook_def auth)
qed

text \<open>
  C5, as the specification states it: for line items whose products are stored and
  available, session creation computes the amount as the sum of stored price times
  quantity and persists an order with that amount. A product can be stored without a
  price: the partner webhook sets the price only from the payload's variants, and upserts
  without validators. For a cart that names such a product the routes accept every line
  item, the total is \<open>NaN\<close>, and no order is persisted.
\<close>

theorem unpriced_product_gives_no_amount:
  "list_all (present_available (products ex_raw_world)) ex_raw_cart
   \<and> calc_total ex_arith (products ex_raw_world) ex_raw_cart (Some 0) = Inr None
   \<and> faster_create ex_arith 42 (Inr (Some ''chk_1'', None))
        \<lparr>fb_items = Some ex_raw_cart, fb_customer = Some ex_customer,
         fb_pickupPincode = Some ''411001''\<rparr> ex_raw_world
      = (ErrorResp 500 ''Failed to create checkout session'', ex_raw_world)
   \<and> create_order ex_arith ex_env 42 None
        \<lparr>cb_amount = Some 98, cb_currency = None, cb_items = Some ex_raw_cart,
         cb_customer = Some ex_customer\<rparr> ex_raw_world
      = (ErrorResp 500 ''Failed to create Razorpay order'',
         emit (RazorpayRequested None ''INR'' ''ORD_42'') ex_raw_world)"
  by (simp add: ex_raw_world_eq emit_def ex_world_def ex_grape_def ex_crate_def ex_raw_def
        ex_raw_cart_def ex_item_def present_available_def checkout_defs show_nat_42)

text \<open>
  C5, amended: when every line item names a stored, available product that has a stored
  price, both session creation routes compute the amount as the sum over the items of
  stored price times quantity, accumulated from zero in the order of the items in
  JavaScript's number arithmetic. Whenever one of them persists an order, it is one new
  order, in status created, whose amount is that sum; and the Razorpay route gives the
  same result for any two non-zero amounts the client may submit.
\<close>

theorem session_amount_is_server_total:
  assumes "list_all (valid_line (products w)) its"
  shows "calc_total ar (products w) its (Some 0) = Inr (Some (server_total ar (products w) its))
       \<and> (\<exists>prods. checkout_loop ar (products w) its (Some 0) []
                     = Inr (Some (server_total ar (products w) its), prods))
       \<and> (fb_items fb = Some its \<longrightarrow>
            orders (snd (faster_create ar now fc fb w)) = orders w
          \<or> (\<exists>d. orders (snd (faster_create ar now fc fb w)) = orders w @ [d]
                 \<and> amount d = server_total ar (products w) its \<and> status d = Created))
       \<and> (cb_items cb = Some its \<longrightarrow>
            (orders (snd (create_order ar ev now rc cb w)) = orders w
           \<or> (\<exists>d. orders (snd (create_order ar ev now rc cb w)) = orders w @ [d]
                 \<and> amount d = server_total ar (products w) its \<and> status d = Created))
          \<and> (\<forall>a a'. a \<noteq> 0 \<longrightarrow> a' \<noteq> 0 \<longrightarrow>
                create_order ar ev now rc (cb\<lparr>cb_amount := Some a\<rparr>) w
                  = create_order ar ev now rc (cb\<lparr>cb_amount := Some a'\<rparr>) w))"
proof (intro conjI impI allI)
  show "calc_total ar (products w) its (Some 0) = Inr (Some (server_total ar (products w) its))"
    using calc_total_server_total[OF assms, of ar] by simp
  show "\<exists>prods. checkout_loop ar (products w) its (Some 0) []
          = Inr (Some (server_total ar (products w) its), prods)"
    using checkout_loop_server_total[OF assms, of ar "[]"] by simp
  show "orders (snd (faster_create ar now fc fb w)) = orders w
      \<or> (\<exists>d. orders (snd (faster_create ar now fc fb w)) = orders w @ [d]
             \<and> amount d = server_total ar (products w) its \<and> status d = Created)"
    if "fb_items fb = Some its"
    using that assms by (rule faster_create_orders)
  show "orders (snd (create_order ar ev now rc cb w)) = orders w
      \<or> (\<exists>d. orders (snd (create_order ar ev now rc cb w)) = orders w @ [d]
             \<and> amount d = server_total ar (products w) its \<and> status d = Created)"
    if "cb_items cb = Some its"
    using that assms by (rule create_order_orders)
  show "create_order ar ev now rc (cb\<lparr>cb_amount := Some a\<rparr>) w
          = create_order ar ev now rc (cb\<lparr>cb_amount := Some a'\<rparr>) w"
    if "a \<noteq> 0" "a' \<noteq> 0" for a a'
    using that by (rule create_order_ignores_amount)
qed

text \<open>C5, amended, on a cart of two cans and a crate: (0 + 49 \<open>\<times>\<close> 2) + 279 \<open>\<times>\<close> 1 = 377,
  whatever amount the client sends.\<close>

theorem session_amount_is_server_total_witness:
  "list_all (valid_line (products (ex_world Paid []))) ex_cart
   \<and> server_total ex_arith (products (ex_world Paid [])) ex_cart = 377
   \<and> calc_total ex_arith (products (ex_world Paid [])) ex_cart (Some 0) = Inr (Some 377)
   \<and> cb_items (ex_create_order_body 1) = Some ex_cart
   \<and> create_order ex_arith ex_env 42 (Some (''order_rzp'', ''INR'')) (ex_create_order_body 1) (ex_world Paid [])
       = create_order ex_arith ex_env 42 (Some (''order_rzp'', ''INR'')) (ex_create_order_body 377) (ex_world Paid [])
   \<and> map amount (orders (snd (create_order ex_arith ex_env 42 (Some (''order_rzp'', ''INR''))
          (ex_create_order_body 1) (ex_world Paid [])))) = [98, 377]
   \<and> map amount (orders (snd (faster_create ex_arith 42 (Inr (Some ''chk_1'', None))
          ex_faster_body (ex_world Paid [])))) = [98, 377]"
proof -
  have valid: "list_all (valid_line (products (ex_world Paid []))) ex_cart"
    by (simp add: ex_defs ex_cart_def valid_line_def findProduct_def)
  have total: "server_total ex_arith (products (ex_world Paid [])) ex_cart = 377"
    by (simp add: ex_defs ex_cart_def server_total_def stored_price_def findProduct_def
          ex_arith_def)
  have its: "cb_items (ex_create_order_body 1) = Some ex_cart"
    by (simp add: ex_create_order_body_def)
  have upd: "(ex_create_order_body 1)\<lparr>cb_amount := Some a\<rparr> = ex_create_order_body a" for a
    by (simp add: ex_create_order_body_def)
  have sn: "show_nat 42 = ''42''"
    by (simp add: show_nat.simps digit_char_def)
  note inst = session_amount_is_server_total[OF valid, where ar = ex_arith
      and fb = ex_faster_body and now = 42 and fc = "Inr (Some ''chk_1'', None)"
      and cb = "ex_create_order_body 1" and ev = ex_env
      and rc = "Some (''order_rzp'', ''INR'')"]
  from inst have calc: "calc_total ex_arith (products (ex_world Paid [])) ex_cart (Some 0) = Inr (Some 377)"
    using total by simp
  from inst its have "\<forall>a a'. a \<noteq> 0 \<longrightarrow> a' \<noteq> 0 \<longrightarrow>
      create_order ex_arith ex_env 42 (Some (''order_rzp'', ''INR'')) ((ex_create_order_body 1)\<lparr>cb_amount := Some a\<rparr>) (ex_world Paid [])
      = create_order ex_arith ex_env 42 (Some (''order_rzp'', ''INR'')) ((ex_create_order_body 1)\<lparr>cb_amount := Some a'\<rparr>) (ex_world Paid [])"
    by blast
  then have same: "create_order ex_arith ex_env 42 (Some (''order_rzp'', ''INR'')) (ex_create_order_body 1) (ex_world Paid [])
       = create_order ex_arith ex_env 42 (Some (''order_rzp'', ''INR'')) (ex_create_order_body 377) (ex_world Paid [])"
    using upd by (metis one_neq_zero zero_neq_numeral)
  have rz: "map amount (orders (snd (create_order ex_arith ex_env 42 (Some (''order_rzp'', ''INR''))
          (ex_create_order_body 1) (ex_world Paid [])))) = [98, 377]"
    by (simp add: ex_defs ex_cart_def ex_create_order_body_def checkout_defs sn)
  have fc: "map amount (orders (snd (faster_create ex_arith 42 (Inr (Some ''chk_1'', None))
          ex_faster_body (ex_world Paid [])))) = [98, 377]"
    by (simp add: ex_defs ex_cart_def ex_faster_body_def checkout_defs sn)
  show ?thesis using valid total calc its same rz fc by simp
qed

section \<open>Persisting the order and calling the collaborator\<close>

text \<open>
  C6, as the specification states it: every session creation persists the order, in status
  created, before any collaborator is called, so the order survives a collaborator failure.
  The Razorpay route calls the gateway first, because the order's required gateway
  reference comes from the gateway's answer: when the gateway fails, the collaborator has
  been called and no order is stored.
\<close>

theorem razorpay_called_before_order_saved:
  "create_order ex_arith ex_env 42 None (ex_create_order_body 377) (ex_world Paid [])
     = (ErrorResp 500 ''Failed to create Razorpay order'',
        (ex_world Paid [])\<lparr>trace := [RazorpayRequested (Some 377) ''INR'' ''ORD_42'']\<rparr>)
   \<and> is_collab_call (RazorpayRequested (Some 377) ''INR'' ''ORD_42'')
   \<and> findOrder ''ORD_42'' (orders (ex_world Paid [])) = None"
  by (simp add: ex_defs ex_cart_def ex_create_order_body_def checkout_defs show_nat_42)

text \<open>
  C6, amended: Faster Checkout session creation either leaves the store and the trace as
  they were, or saves the new order in status created and only then calls the
  collaborator; the order is in the store afterwards, in status created, also when the
  collaborator fails (the collaborator's error is then the response). Razorpay order
  creation calls the gateway first and saves the order, in status created, only after the
  gateway succeeded; when the gateway fails nothing is stored.
\<close>

theorem order_saved_before_checkout_call:
  "((new_events w (snd (faster_create ar now fc fb w)) = []
        \<and> orders (snd (faster_create ar now fc fb w)) = orders w)
     \<or> (\<exists>amt prods d.
          take 2 (new_events w (snd (faster_create ar now fc fb w)))
             = [OrderSaved (''BREWY_'' @ show_nat now) Created,
                CheckoutRequested (''BREWY_'' @ show_nat now) amt prods]
        \<and> findOrder (''BREWY_'' @ show_nat now) (orders w) = None
        \<and> findOrder (''BREWY_'' @ show_nat now) (orders (snd (faster_create ar now fc fb w))) = Some d
        \<and> status d = Created \<and> amount d = amt
        \<and> (\<forall>err. fc = Inl err \<longrightarrow>
              fst (faster_create ar now fc fb w) = ErrorResp 500 err
            \<and> new_events w (snd (faster_create ar now fc fb w))
                 = [OrderSaved (''BREWY_'' @ show_nat now) Created,
                    CheckoutRequested (''BREWY_'' @ show_nat now) amt prods])))
   \<and> ((new_events w (snd (create_order ar ev now rc cb w)) = []
        \<and> orders (snd (create_order ar ev now rc cb w)) = orders w)
     \<or> (\<exists>total cur.
          take 1 (new_events w (snd (create_order ar ev now rc cb w)))
             = [RazorpayRequested total cur (''ORD_'' @ show_nat now)]
        \<and> (rc = None \<longrightarrow>
              orders (snd (create_order ar ev now rc cb w)) = orders w
            \<and> new_events w (snd (create_order ar ev now rc cb w))
                 = [RazorpayRequested total cur (''ORD_'' @ show_nat now)]
            \<and> fst (create_order ar ev now rc cb w) = ErrorResp 500 ''Failed to create Razorpay order'')
        \<and> (orders (snd (create_order ar ev now rc cb w)) \<noteq> orders w \<longrightarrow>
              (\<exists>d. orders (snd (create_order ar ev now rc cb w)) = orders w @ [d]
                 \<and> orderId d = ''ORD_'' @ show_nat now \<and> status d = Created
                 \<and> new_events w (snd (create_order ar ev now rc cb w))
                      = [RazorpayRequested total cur (''ORD_'' @ show_nat now),
                         OrderSaved (''ORD_'' @ show_nat now) Created]))))"
  by (rule conjI, rule faster_create_shape, rule create_order_shape)

text \<open>C6, amended, on the example cart: the checkout collaborator fails and the order stays;
  the gateway succeeds and the order is saved after the call.\<close>

theorem order_saved_before_checkout_call_witness:
  "faster_create ex_arith 42 (Inl ''gateway down'') ex_faster_body (ex_world Paid [])
     = (ErrorResp 500 ''gateway down'',
        (ex_world Paid [])\<lparr>
           orders := [ex_order Paid [], new_order ''BREWY_42'' ''BREWY_42'' 377 ''INR'' ex_customer ex_cart],
           trace := [OrderSaved ''BREWY_42'' Created,
                     CheckoutRequested ''BREWY_42'' 377
                       [\<lparr>fc_name = ''Grape Brewy'', fc_sku = ''prod_grape'', fc_units = 2,
                         fc_selling_price = Some 49, fc_discount = 0\<rparr>,
                        \<lparr>fc_name = ''Brewy Crate'', fc_sku = ''prod_crate'', fc_units = 1,
                         fc_selling_price = Some 279, fc_discount = 0\<rparr>]]\<rparr>)
   \<and> create_order ex_arith ex_env 42 (Some (''order_rzp'', ''INR'')) (ex_create_order_body 1) (ex_world Paid [])
      = (RazorpayOrderResp ''ORD_42'' ''order_rzp'' 377 ''INR'' (Some ''rzp_test_key''),
        (ex_world Paid [])\<lparr>
           orders := [ex_order Paid [], new_order ''ORD_42'' ''order_rzp'' 377 ''INR'' ex_customer ex_cart],
           trace := [RazorpayRequested (Some 377) ''INR'' ''ORD_42'', OrderSaved ''ORD_42'' Created]\<rparr>)"
proof -
  have sn: "show_nat 42 = ''42''"
    by (simp add: show_nat.simps digit_char_def)
  have a: "faster_create ex_arith 42 (Inl ''gateway down'') ex_faster_body (ex_world Paid [])
     = (ErrorResp 500 ''gateway down'',
        (ex_world Paid [])\<lparr>
           orders := [ex_order Paid [], new_order ''BREWY_42'' ''BREWY_42'' 377 ''INR'' ex_customer ex_cart],
           trace := [OrderSaved ''BREWY_42'' Created,
                     CheckoutRequested ''BREWY_42'' 377
                       [\<lparr>fc_name = ''Grape Brewy'', fc_sku = ''prod_grape'', fc_units = 2,
                         fc_selling_price = Some 49, fc_discount = 0\<rparr>,
                        \<lparr>fc_name = ''Brewy Crate'', fc_sku = ''prod_crate'', fc_units = 1,
                         fc_selling_price = Some 279, fc_discount = 0\<rparr>]]\<rparr>)"
    by (simp add: ex_defs ex_cart_def ex_faster_body_def checkout_defs sn)
  have b: "create_order ex_arith ex_env 42 (Some (''order_rzp'', ''INR'')) (ex_create_order_body 1) (ex_world Paid [])
      = (RazorpayOrderResp ''ORD_42'' ''order_rzp'' 377 ''INR'' (Some ''rzp_test_key''),
        (ex_world Paid [])\<lparr>
           orders := [ex_order Paid [], new_order ''ORD_42'' ''order_rzp'' 377 ''INR'' ex_customer ex_cart],
           trace := [RazorpayRequested (Some 377) ''INR'' ''ORD_42'', OrderSaved ''ORD_42'' Created]\<rparr>)"
    by (simp add: ex_defs ex_cart_def ex_create_order_body_def checkout_defs sn)
  note inst = order_saved_before_checkout_call[where w = "ex_world Paid []" and ar = ex_arith
      and now = 42 and fc = "Inl ''gateway down''" and fb = ex_faster_body and ev = ex_env
      and rc = "Some (''order_rzp'', ''INR'')" and cb = "ex_create_order_body 1"]
  show ?thesis using a b inst by simp
qed

section \<open>The checkout token route\<close>



lemma new_events_same [simp]: "new_events w w = []"
  by (simp add: new_events_def)

lemma new_events_emit [simp]: "new_events w (emit e w) = [e]"
  by (simp add: new_events_def emit_def)







section \<open>The handle of an upserted record\<close>

lemma product_updateData_handle:
  "pu_handle (product_updateData parse_float pd)
     = (if pp_title pd = [] then None else Some (slugify (pp_title pd)))"
  by (simp add: product_updateData_def Let_def truthy_def split: option.splits list.splits)

lemma collection_updateData_handle:
  "cu_handle (collection_updateData cd)
     = (if pc_title cd = [] then None else Some (slugify (pc_title cd)))"
  by (simp add: collection_updateData_def Let_def truthy_def)

lemma slugify_grape_brewy: "slugify ''Grape Brewy'' = ''grape-brewy''"
  by (simp add: slugify_def toLowerCase_def lower_char_def is_space_def)

text \<open>
  C8: the handle derived from a name is the name in lower case with every run of whitespace
  replaced by one hyphen, so \<open>Grape Brewy\<close> gives \<open>grape-brewy\<close>. The specification adds
  that the derived handle is only a default, and that a stored handle survives an update
  whose payload carries none. The route tests the handle of the update document it has
  just built, which never has one, so the handle is derived whenever the title is
  non-empty and replaces the stored one: the product stored with handle \<open>grape\<close> has
  handle \<open>grape-brewy\<close> after an authenticated partner update that carries no handle.
\<close>

theorem partner_update_overwrites_handle:
  "slugify ''Grape Brewy'' = ''grape-brewy''
   \<and> slugify ''Grape   Brewy'' = ''grape-brewy''
   \<and> map p_handle (products (ex_world Paid [])) = [Some ''grape'', Some ''crate'']
   \<and> fst (product_webhook ex_hmac ex_stringify_product ex_parse_float 7 ex_env
        (ex_signed (Some ''sr-key'') (Some ''sr-secret#prod_grape,Grape Brewy''))
        (ex_partner_product ''Grape Brewy'') (ex_world Paid []))
      = ProductWebhookResp ''prod_grape''
   \<and> map p_handle (products (snd (product_webhook ex_hmac ex_stringify_product ex_parse_float 7 ex_env
        (ex_signed (Some ''sr-key'') (Some ''sr-secret#prod_grape,Grape Brewy''))
        (ex_partner_product ''Grape Brewy'') (ex_world Paid []))))
      = [Some ''grape-brewy'', Some ''crate'']"
proof -
  have s2: "slugify ''Grape   Brewy'' = ''grape-brewy''"
    by (simp add: slugify_def toLowerCase_def lower_char_def is_space_def)
  have auth: "verifyHMAC ex_hmac ex_env
        (ex_signed (Some ''sr-key'') (Some ''sr-secret#prod_grape,Grape Brewy''))
        (ex_stringify_product (ex_partner_product ''Grape Brewy'')) = None"
    by (simp add: verifyHMAC_def ex_signed_def ex_env_def ex_hmac_def ex_stringify_product_def
          ex_partner_product_def truthy_def or_else_def)
  have u: "product_updateData ex_parse_float (ex_partner_product ''Grape Brewy'')
      = \<lparr>pu_id = ''prod_grape'', pu_name = ''Grape Brewy'', pu_description = [],
         pu_flavor = ''Beverages'', pu_updatedAt = 1, pu_availableForSale = True,
         pu_price = None, pu_stock = None, pu_variants = None, pu_dimensions = None,
         pu_images = None, pu_handle = Some ''grape-brewy''\<rparr>"
    by (simp add: product_updateData_def ex_partner_product_def Let_def truthy_def or_else_def
          slugify_grape_brewy)
  have pid: "pp_id (ex_partner_product ''Grape Brewy'') = ''prod_grape''"
    by (simp add: ex_partner_product_def)
  have h: "product_handler ex_parse_float 7 (ex_partner_product ''Grape Brewy'') (ex_world Paid [])
      = (ProductWebhookResp ''prod_grape'',
         emit (CatalogWritten ''prod_grape'')
           ((ex_world Paid [])\<lparr>products :=
              [ex_grape\<lparr>p_description := [], flavor := ''Beverages'', p_updatedAt := 7,
                        p_handle := Some ''grape-brewy''\<rparr>, ex_crate]\<rparr>))"
    by (simp add: product_handler_def u pid Let_def upsert_def apply_product_update_def keep_def
          ex_world_def ex_grape_def ex_crate_def)
  show ?thesis
    by (simp add: slugify_grape_brewy s2 product_webhook_def auth h emit_def)
       (simp add: ex_world_def ex_grape_def ex_crate_def)
qed

section \<open>Packaging a shipment\<close>

lemma resolved_Nil [simp]: "resolved ps [] = []"
  by (simp add: resolved_def List.map_filter_simps)

lemma resolved_Cons:
  "resolved ps (it # its) =
     (case findProduct (productId it) ps of None \<Rightarrow> resolved ps its
      | Some p \<Rightarrow> (it, p) # resolved ps its)"
  by (simp add: resolved_def List.map_filter_simps split: option.splits)


lemma package_fold_weight:
  "totalWeight (fold (package_step ar ps) its acc)
     = foldl (\<lambda>wt (it, p). fadd ar wt (fmul ar (ship_weight p) (quantity it)))
         (totalWeight acc) (resolved ps its)"
  by (induction its arbitrary: acc)
     (auto simp: package_step_def resolved_Cons ship_weight_def Let_def split: option.splits)

lemma package_fold_length:
  "10 \<le> maxLength acc \<Longrightarrow>
   maxLength (fold (package_step ar ps) its acc)
     = fold max (map (\<lambda>(it, p). ship_dim dim_length p) (resolved ps its)) (maxLength acc)"
  by (induction its arbitrary: acc)
     (auto simp: package_step_def resolved_Cons ship_dim_def Let_def max_def split: option.splits)

lemma package_fold_breadth:
  "10 \<le> maxBreadth acc \<Longrightarrow>
   maxBreadth (fold (package_step ar ps) its acc)
     = fold max (map (\<lambda>(it, p). ship_dim dim_breadth p) (resolved ps its)) (maxBreadth acc)"
  by (induction its arbitrary: acc)
     (auto simp: package_step_def resolved_Cons ship_dim_def Let_def max_def split: option.splits)

lemma package_fold_height:
  "10 \<le> maxHeight acc \<Longrightarrow>
   maxHeight (fold (package_step ar ps) its acc)
     = fold max (map (\<lambda>(it, p). ship_dim dim_height p) (resolved ps its)) (maxHeight acc)"
  by (induction its arbitrary: acc)
     (auto simp: package_step_def resolved_Cons ship_dim_def Let_def max_def split: option.splits)

lemma fold_max_Max: "fold max xs (a :: rat) = Max (insert a (set xs))"
  using Max.set_eq_fold[of a xs] by simp

lemmas package_eval = resolved_Cons findProduct_def ship_weight_def ship_dim_def num_or_def

text \<open>
  C9, as the specification states it: the package is the per-axis maximum of the stored
  sizes of the ordered products. The loop starts every axis at 10, so an order of one can
  whose stored length is 6 is packaged with length 10.
\<close>

theorem single_can_package_is_not_its_size:
  "map (\<lambda>(it, p). map_option dim_length (p_dimensions p))
       (resolved (products (ex_world Paid [])) [ex_item ''prod_grape'' 1]) = [Some 6]
   \<and> sr_length (shiprocketData ex_arith (products (ex_world Paid []))
         (ex_order Paid [ex_item ''prod_grape'' 1]) None) = 10
   \<and> sr_length (shiprocketData ex_arith (products (ex_world Paid []))
         (ex_order Paid [ex_item ''prod_grape'' 1]) None) \<noteq> 6"
  by (simp add: ex_defs package_eval shiprocketData_def package_loop_def package_step_def
        package_init_def Let_def)

text \<open>
  C9, amended: over the line items whose product is still stored, the package weight is
  the sum of weight times quantity, accumulated from zero in the order of the items in
  JavaScript's number arithmetic, where a product without dimensions, or with a stored
  weight of zero, weighs 0.5; and each side of the package is the maximum of 10 and the
  products' stored sizes on that axis (not their sum), a product without dimensions or
  with a zero size counting as 10.
\<close>

theorem package_is_floor_ten_max_and_weight_sum:
  "sr_weight (shiprocketData ar ps d pl)
     = foldl (\<lambda>wt (it, p). fadd ar wt (fmul ar (ship_weight p) (quantity it))) 0
         (resolved ps (items d))
   \<and> sr_length (shiprocketData ar ps d pl)
     = Max (insert 10 (set (map (\<lambda>(it, p). ship_dim dim_length p) (resolved ps (items d)))))
   \<and> sr_breadth (shiprocketData ar ps d pl)
     = Max (insert 10 (set (map (\<lambda>(it, p). ship_dim dim_breadth p) (resolved ps (items d)))))
   \<and> sr_height (shiprocketData ar ps d pl)
     = Max (insert 10 (set (map (\<lambda>(it, p). ship_dim dim_height p) (resolved ps (items d)))))"
  using package_fold_weight[where ar = ar and ps = ps and its = "items d" and acc = package_init]
    package_fold_length[where ar = ar and ps = ps and its = "items d" and acc = package_init]
    package_fold_breadth[where ar = ar and ps = ps and its = "items d" and acc = package_init]
    package_fold_height[where ar = ar and ps = ps and its = "items d" and acc = package_init]
  by (simp add: shiprocketData_def package_loop_def Let_def package_init_def fold_max_Max)

text \<open>C9, amended, on the specification's example: sizes (6, 6, 12) at quantity 2 and
  (10, 10, 10) at quantity 1 give the package (10, 10, 12) and the weight
  (0 + 0.35 \<open>\<times>\<close> 2) + 0.5 \<open>\<times>\<close> 1, which is 1.2 when the sums and products are exact.\<close>

theorem package_is_floor_ten_max_and_weight_sum_witness:
  "sr_length (shiprocketData ex_arith (products (ex_world Paid [])) ex_package_order None) = 10
   \<and> sr_breadth (shiprocketData ex_arith (products (ex_world Paid [])) ex_package_order None) = 10
   \<and> sr_height (shiprocketData ex_arith (products (ex_world Paid [])) ex_package_order None) = 12
   \<and> sr_weight (shiprocketData ex_arith (products (ex_world Paid [])) ex_package_order None) = 12/10"
  using package_is_floor_ten_max_and_weight_sum[where ar = ex_arith
          and ps = "products (ex_world Paid [])" and d = ex_package_order and pl = None]
  by (simp add: ex_package_order_def ex_defs package_eval ex_arith_def)

section \<open>Line items whose product is gone\<close>










end
